theory Spec2Isabelle
  imports Complex_Main "HOL-Library.Multiset"
begin

section \<open>Kinematic constraints: a shallow embedding of kinematic\_constraint.cpp\<close>

text \<open>
  The development follows \<^verbatim>\<open>src/kinematic_constraints/src/kinematic_constraint.cpp\<close>.
  A C++ \<^verbatim>\<open>double\<close> is an IEEE 754 binary64 value: a finite number, an infinity or
  NaN, with every arithmetic result rounded to the nearest double. Member names
  drop the trailing underscore of the source (\<^verbatim>\<open>joint_model_\<close> is \<open>joint_model\<close>).
  A pointer that may be \<^verbatim>\<open>NULL\<close> is an \<open>option\<close>. An index into a
  \<^verbatim>\<open>std::vector\<close> or an array that is out of range is undefined behaviour in C++; the
  model returns the error \<open>OutOfRange\<close> there and promises nothing further.
\<close>

subsection \<open>Numbers\<close>

text \<open>
  \<open>Finite x\<close> is the double with the value \<open>x\<close>. An operation on finite doubles computes
  the exact real result and rounds it: to the nearest multiple of the unit in the last
  place (53 significant bits, the exponent at least -1022), a tie to the even multiple,
  and to an infinity from \<open>2 ^ 1024\<close> on. The operations on infinities and NaN are those
  of the standard; a comparison with NaN is false, so \<open>a \<le> b\<close> is not the negation of
  \<open>b < a\<close>. The two zeros are one value: the file divides only by the length of a vector
  and by the number of cone sides, which are never the negative zero. The type also holds
  \<open>Finite x\<close> for a real \<open>x\<close> that no double has as its value; what is proved of every
  value of the type holds of the doubles among them, and the concrete inputs below are
  doubles (\<open>representable\<close>, or the result of \<open>literal\<close>).
\<close>

datatype double = Finite real | PInf | NInf | NaN

definition pow2 :: "int \<Rightarrow> real" where
  "pow2 e = (if 0 \<le> e then 2 ^ nat e else 1 / 2 ^ nat (- e))"

definition exponent :: "real \<Rightarrow> int" where
  \<comment> \<open>the \<open>e\<close> with \<open>2 ^ e \<le> \<bar>x\<bar> < 2 ^ (e + 1)\<close>\<close>
  "exponent x = \<lfloor>log 2 \<bar>x\<bar>\<rfloor>"

definition round_half_even :: "real \<Rightarrow> int" where
  "round_half_even r =
     (let f = \<lfloor>r\<rfloor>; d = r - of_int f
      in if d < 1 / 2 then f else if 1 / 2 < d then f + 1 else if even f then f else f + 1)"

definition round_double :: "real \<Rightarrow> double" where
  "round_double x =
     (if x = 0 then Finite 0
      else (let e = max (exponent x) (- 1022);
                ulp = pow2 (e - 52);
                r = of_int (round_half_even (x / ulp)) * ulp
            in if pow2 1024 \<le> \<bar>r\<bar> then (if 0 < x then PInf else NInf) else Finite r))"

definition representable :: "real \<Rightarrow> bool" where
  \<comment> \<open>the reals that are the value of a double\<close>
  "representable x = (round_double x = Finite x)"

definition literal :: "real \<Rightarrow> double" where
  \<comment> \<open>a decimal literal, converted to the nearest double\<close>
  "literal x = round_double x"

fun double_add :: "double \<Rightarrow> double \<Rightarrow> double" where
  "double_add (Finite a) (Finite b) = round_double (a + b)"
| "double_add NaN y = NaN"
| "double_add x NaN = NaN"
| "double_add PInf NInf = NaN"
| "double_add NInf PInf = NaN"
| "double_add PInf y = PInf"
| "double_add NInf y = NInf"
| "double_add x PInf = PInf"
| "double_add x NInf = NInf"

fun double_neg :: "double \<Rightarrow> double" where
  "double_neg (Finite a) = Finite (- a)"
| "double_neg PInf = NInf"
| "double_neg NInf = PInf"
| "double_neg NaN = NaN"

fun double_abs :: "double \<Rightarrow> double" where
  \<comment> \<open>\<^verbatim>\<open>fabs\<close>\<close>
  "double_abs (Finite a) = Finite \<bar>a\<bar>"
| "double_abs PInf = PInf"
| "double_abs NInf = PInf"
| "double_abs NaN = NaN"

fun double_mul :: "double \<Rightarrow> double \<Rightarrow> double" where
  "double_mul (Finite a) (Finite b) = round_double (a * b)"
| "double_mul NaN y = NaN"
| "double_mul x NaN = NaN"
| "double_mul (Finite a) y =
     (if a = 0 then NaN else if (0 < a) = (y = PInf) then PInf else NInf)"
| "double_mul x (Finite b) =
     (if b = 0 then NaN else if (0 < b) = (x = PInf) then PInf else NInf)"
| "double_mul x y = (if x = y then PInf else NInf)"

fun double_div :: "double \<Rightarrow> double \<Rightarrow> double" where
  "double_div (Finite a) (Finite b) =
     (if b = 0 then (if a = 0 then NaN else if 0 < a then PInf else NInf)
      else round_double (a / b))"
| "double_div NaN y = NaN"
| "double_div x NaN = NaN"
| "double_div (Finite a) y = Finite 0"
| "double_div x (Finite b) = (if (0 \<le> b) = (x = PInf) then PInf else NInf)"
| "double_div x y = NaN"

fun double_less :: "double \<Rightarrow> double \<Rightarrow> bool" where
  "double_less (Finite a) (Finite b) = (a < b)"
| "double_less NaN y = False"
| "double_less x NaN = False"
| "double_less x NInf = False"
| "double_less PInf y = False"
| "double_less NInf y = True"
| "double_less x PInf = True"

fun double_le :: "double \<Rightarrow> double \<Rightarrow> bool" where
  "double_le (Finite a) (Finite b) = (a \<le> b)"
| "double_le NaN y = False"
| "double_le x NaN = False"
| "double_le NInf y = True"
| "double_le x PInf = True"
| "double_le x y = False"

fun double_sqrt :: "double \<Rightarrow> double" where
  \<comment> \<open>\<^verbatim>\<open>sqrt\<close>, which the standard requires to be correctly rounded\<close>
  "double_sqrt (Finite a) = (if a < 0 then NaN else round_double (sqrt a))"
| "double_sqrt PInf = PInf"
| "double_sqrt NInf = NaN"
| "double_sqrt NaN = NaN"

text \<open>The operators of C++ on doubles, so that the definitions read as the source does.\<close>

instantiation double :: "{plus, minus, uminus, times, inverse, abs, ord}"
begin

definition plus_double :: "double \<Rightarrow> double \<Rightarrow> double" where
  "plus_double a b = double_add a b"

definition minus_double :: "double \<Rightarrow> double \<Rightarrow> double" where
  "minus_double a b = double_add a (double_neg b)"

definition uminus_double :: "double \<Rightarrow> double" where
  "uminus_double a = double_neg a"

definition times_double :: "double \<Rightarrow> double \<Rightarrow> double" where
  "times_double a b = double_mul a b"

definition inverse_double :: "double \<Rightarrow> double" where
  "inverse_double a = double_div (Finite 1) a"

definition divide_double :: "double \<Rightarrow> double \<Rightarrow> double" where
  "divide_double a b = double_div a b"

definition abs_double :: "double \<Rightarrow> double" where
  "abs_double a = double_abs a"

definition less_eq_double :: "double \<Rightarrow> double \<Rightarrow> bool" where
  "less_eq_double a b = double_le a b"

definition less_double :: "double \<Rightarrow> double \<Rightarrow> bool" where
  "less_double a b = double_less a b"

instance ..

end

definition epsilon :: double where
  \<comment> \<open>\<^verbatim>\<open>std::numeric_limits<double>::epsilon()\<close>: the gap between 1 and the next double.\<close>
  "epsilon = Finite (1 / 2 ^ 52)"

definition SIMD_PI :: double where
  \<comment> \<open>Bullet's constant: the double nearest to \<open>pi\<close>\<close>
  "SIMD_PI = Finite (884279719003555 / 2 ^ 48)"

definition SIMD_2_PI :: double where
  \<comment> \<open>Bullet's constant: the double nearest to \<open>2 * pi\<close>, twice \<open>SIMD_PI\<close>\<close>
  "SIMD_2_PI = Finite (884279719003555 / 2 ^ 47)"

definition trunc :: "real \<Rightarrow> int" where
  \<comment> \<open>rounding towards zero, as C's \<^verbatim>\<open>fmod\<close> uses for the quotient\<close>
  "trunc r = (if 0 \<le> r then \<lfloor>r\<rfloor> else \<lceil>r\<rceil>)"

definition btFmod :: "double \<Rightarrow> double \<Rightarrow> double" where
  \<comment> \<open>\<^verbatim>\<open>fmod(x, y)\<close>: the remainder with the sign of \<open>x\<close>, which is exact (no rounding)\<close>
  "btFmod x y =
     (case (x, y) of
        (Finite a, Finite b) \<Rightarrow>
          if b = 0 then NaN else Finite (a - b * of_int (trunc (a / b)))
      | (Finite a, PInf) \<Rightarrow> Finite a
      | (Finite a, NInf) \<Rightarrow> Finite a
      | _ \<Rightarrow> NaN)"

definition btNormalizeAngle :: "double \<Rightarrow> double" where
  \<comment> \<open>Bullet's \<^verbatim>\<open>btNormalizeAngle\<close> (LinearMath/btScalar.h), which the file calls:
      \<^verbatim>\<open>a = btFmod(a, SIMD_2_PI); if (a < -SIMD_PI) return a + SIMD_2_PI;
      else if (a > SIMD_PI) return a - SIMD_2_PI; else return a;\<close>\<close>
  "btNormalizeAngle angleInRadians =
     (let a = btFmod angleInRadians SIMD_2_PI
      in if a < - SIMD_PI then a + SIMD_2_PI
         else if a > SIMD_PI then a - SIMD_2_PI
         else a)"

datatype error = OutOfRange

subsection \<open>Geometry (Bullet's vectors, matrices and transforms)\<close>

record btVector3 =
  vec_x :: double
  vec_y :: double
  vec_z :: double

definition btVector3 :: "double \<Rightarrow> double \<Rightarrow> double \<Rightarrow> btVector3" where
  "btVector3 a b c = \<lparr>vec_x = a, vec_y = b, vec_z = c\<rparr>"

definition dot :: "btVector3 \<Rightarrow> btVector3 \<Rightarrow> double" where
  "dot u v = vec_x u * vec_x v + vec_y u * vec_y v + vec_z u * vec_z v"

definition length2 :: "btVector3 \<Rightarrow> double" where
  "length2 v = dot v v"

definition minus_vec :: "btVector3 \<Rightarrow> btVector3 \<Rightarrow> btVector3" where
  "minus_vec u v = btVector3 (vec_x u - vec_x v) (vec_y u - vec_y v) (vec_z u - vec_z v)"

definition vec_length :: "btVector3 \<Rightarrow> double" where
  \<comment> \<open>\<^verbatim>\<open>length()\<close>\<close>
  "vec_length v = double_sqrt (length2 v)"

definition scale_vec :: "btVector3 \<Rightarrow> double \<Rightarrow> btVector3" where
  \<comment> \<open>\<^verbatim>\<open>operator*(v, s)\<close>\<close>
  "scale_vec v s = btVector3 (vec_x v * s) (vec_y v * s) (vec_z v * s)"

definition normalized :: "btVector3 \<Rightarrow> btVector3" where
  \<comment> \<open>Bullet's \<^verbatim>\<open>*this / length()\<close>, where \<^verbatim>\<open>v / s\<close> is \<^verbatim>\<open>v * (btScalar(1.0) / s)\<close>;
      the assertion that \<open>s\<close> is not zero is compiled out\<close>
  "normalized v = scale_vec v (Finite 1 / vec_length v)"

record btMatrix3x3 =
  row0 :: btVector3
  row1 :: btVector3
  row2 :: btVector3

definition getColumn :: "btMatrix3x3 \<Rightarrow> nat \<Rightarrow> btVector3" where
  "getColumn m i =
     (let c = (if i = 0 then vec_x else if i = 1 then vec_y else vec_z)
      in btVector3 (c (row0 m)) (c (row1 m)) (c (row2 m)))"

record btTransform =
  getBasis :: btMatrix3x3
  getOrigin :: btVector3

definition apply_transform :: "btTransform \<Rightarrow> btVector3 \<Rightarrow> btVector3" where
  \<comment> \<open>\<^verbatim>\<open>btTransform::operator()(x)\<close>: the basis applied to \<open>x\<close>, plus the origin\<close>
  "apply_transform t v =
     btVector3 (dot (row0 (getBasis t)) v + vec_x (getOrigin t))
               (dot (row1 (getBasis t)) v + vec_y (getOrigin t))
               (dot (row2 (getBasis t)) v + vec_z (getOrigin t))"

definition identity_matrix :: btMatrix3x3 where
  "identity_matrix =
     \<lparr>row0 = btVector3 (Finite 1) (Finite 0) (Finite 0),
      row1 = btVector3 (Finite 0) (Finite 1) (Finite 0),
      row2 = btVector3 (Finite 0) (Finite 0) (Finite 1)\<rparr>"

definition getIdentity :: btTransform where
  "getIdentity =
     \<lparr>getBasis = identity_matrix, getOrigin = btVector3 (Finite 0) (Finite 0) (Finite 0)\<rparr>"

record btQuaternion =
  quat_x :: double
  quat_y :: double
  quat_z :: double
  quat_w :: double

subsection \<open>Constraint specifications (the messages)\<close>

record Point =
  point_x :: double
  point_y :: double
  point_z :: double

record Pose =
  pose_position :: Point
  pose_orientation :: btQuaternion

record PoseStamped =
  ps_frame_id :: string
  ps_pose :: Pose

record QuaternionStamped =
  qs_frame_id :: string
  qs_quaternion :: btQuaternion

record JointConstraintMsg =
  jc_joint_name :: string
  jc_position :: double
  jc_tolerance_above :: double
  jc_tolerance_below :: double
  jc_weight :: double

record 'shape_msg PositionConstraintMsg =
  pc_link_name :: string
  pc_target_point_offset :: Point
  pc_constraint_region_shape :: 'shape_msg
  pc_constraint_region_pose :: PoseStamped
  pc_weight :: double

record OrientationConstraintMsg =
  oc_link_name :: string
  oc_orientation :: QuaternionStamped
  oc_absolute_roll_tolerance :: double
  oc_absolute_pitch_tolerance :: double
  oc_absolute_yaw_tolerance :: double
  oc_weight :: double

record VisibilityConstraintMsg =
  vc_target_radius :: double
  vc_cone_sides :: int
  vc_target_pose :: PoseStamped
  vc_sensor_pose :: PoseStamped
  vc_max_view_angle :: double
  vc_weight :: double

record 'shape_msg Constraints =
  joint_constraints :: "JointConstraintMsg list"
  position_constraints :: "'shape_msg PositionConstraintMsg list"
  orientation_constraints :: "OrientationConstraintMsg list"
  visibility_constraints :: "VisibilityConstraintMsg list"

subsection \<open>mergeConstraints\<close>

fun name_in_first :: "string \<Rightarrow> JointConstraintMsg list \<Rightarrow> bool" where
  \<comment> \<open>the inner loop over \<^verbatim>\<open>first.joint_constraints\<close>; \<open>True\<close> is \<^verbatim>\<open>keep = false; break\<close>\<close>
  "name_in_first n [] = False"
| "name_in_first n (f # fs) = (if n = jc_joint_name f then True else name_in_first n fs)"

fun merge_joint_constraints ::
  "JointConstraintMsg list \<Rightarrow> JointConstraintMsg list \<Rightarrow> JointConstraintMsg list
   \<Rightarrow> JointConstraintMsg list" where
  \<comment> \<open>the outer loop over \<^verbatim>\<open>second.joint_constraints\<close>; \<open>r\<close> is \<^verbatim>\<open>r.joint_constraints\<close>\<close>
  "merge_joint_constraints [] first_jc r = r"
| "merge_joint_constraints (s # ss) first_jc r =
     (let keep = \<not> name_in_first (jc_joint_name s) first_jc
      in merge_joint_constraints ss first_jc (if keep then r @ [s] else r))"

fun push_back_all :: "'a list \<Rightarrow> 'a list \<Rightarrow> 'a list" where
  \<comment> \<open>\<^verbatim>\<open>for (i ...) r.push_back(second[i])\<close>\<close>
  "push_back_all [] r = r"
| "push_back_all (s # ss) r = push_back_all ss (r @ [s])"

definition mergeConstraints ::
  "('s, 'more) Constraints_scheme \<Rightarrow> ('s, 'more2) Constraints_scheme
   \<Rightarrow> ('s, 'more) Constraints_scheme" where
  "mergeConstraints first second =
     (let r = first;
          r = r\<lparr>joint_constraints :=
                 merge_joint_constraints (joint_constraints second) (joint_constraints first)
                   (joint_constraints r)\<rparr>;
          r = r\<lparr>position_constraints :=
                 push_back_all (position_constraints second) (position_constraints r)\<rparr>;
          r = r\<lparr>orientation_constraints :=
                 push_back_all (orientation_constraints second) (orientation_constraints r)\<rparr>;
          r = r\<lparr>visibility_constraints :=
                 push_back_all (visibility_constraints second) (visibility_constraints r)\<rparr>
      in r)"

subsection \<open>The collaborators: kinematic model, state, transforms, logging\<close>

record JointModel =
  jm_name :: string
  jm_variable_count :: nat
  jm_revolute_continuous :: "bool option"
    \<comment> \<open>\<open>None\<close>: the \<^verbatim>\<open>dynamic_cast\<close> to \<^verbatim>\<open>RevoluteJointModel\<close> gives \<^verbatim>\<open>NULL\<close>;
        \<open>Some c\<close>: a revolute joint whose \<^verbatim>\<open>isContinuous()\<close> is \<open>c\<close>\<close>

record LinkModel =
  lm_name :: string

record KinematicModel =
  getJointModel :: "string \<rightharpoonup> JointModel"
  getLinkModel :: "string \<rightharpoonup> LinkModel"

record JointState =
  js_name :: string
  getVariableValues :: "double list"

record LinkState =
  getGlobalLinkTransform :: btTransform

record KinematicState =
  getJointState :: "string \<rightharpoonup> JointState"
  getLinkState :: "string \<rightharpoonup> LinkState"

text \<open>
  \<^verbatim>\<open>planning_models::Transforms\<close> is not part of the file: its operations are fields of a
  record, and every theorem holds whatever they compute. The variants that take the state
  carry \<open>AtState\<close> in their name.
\<close>

record Transforms =
  isFixedFrame :: "string \<Rightarrow> bool"
  getPlanningFrame :: string
  transformTransform :: "btTransform \<Rightarrow> string \<Rightarrow> btTransform"
  transformQuaternion :: "btQuaternion \<Rightarrow> string \<Rightarrow> btQuaternion"
  transformTransformAtState :: "KinematicState \<Rightarrow> btTransform \<Rightarrow> string \<Rightarrow> btTransform"
  transformMatrixAtState :: "KinematicState \<Rightarrow> btMatrix3x3 \<Rightarrow> string \<Rightarrow> btMatrix3x3"
  getTransformToTargetFrame :: "KinematicState \<Rightarrow> string \<Rightarrow> btTransform"

record Mesh =
  vertex_count :: nat
  vertices :: "double list"
  triangle_count :: nat
  triangles :: "nat list"

text \<open>What the logging macros print: the severity and the message with its main arguments.\<close>

datatype severity = ROS_INFO | ROS_WARN | ROS_ERROR

datatype message =
    JointHasNoParameters string
  | JointHasMoreThanOneParameter string
  | JointWeightShouldBePositive string
  | NoJointInState string
  | JointConstraintDecision bool string double double double double
  | IncorrectOrientationInPose string
  | PositionWeightShouldBePositive string
  | NoLinkInState string
  | PositionConstraintDecision bool string btVector3 btVector3
  | OrientationProbablyIncorrect string btQuaternion
  | OrientationWeightShouldBePositive string
  | OrientationConstraintDecision bool string double double double double double double
  | RadiusShouldBePositive
  | ConeSidesMustBeThreeOrMore int
  | IncorrectOrientationInTargetPose
  | IncorrectOrientationInSensorPose
  | VisibilityWeightShouldBePositive
  | ViewAngleAboveMaximum double double
  | VisibilityConstraintDecision bool Mesh

type_synonym log = "(severity \<times> message) list"

type_synonym decision = "bool \<times> double"

subsection \<open>KinematicConstraint: the base class\<close>

record KinematicConstraint =
  model :: KinematicModel
  tf :: Transforms
  constraint_weight :: double

definition KinematicConstraint :: "KinematicModel \<Rightarrow> Transforms \<Rightarrow> KinematicConstraint" where
  \<comment> \<open>the constructor\<close>
  "KinematicConstraint m t = \<lparr>model = m, tf = t, constraint_weight = epsilon\<rparr>"

subsection \<open>JointConstraint\<close>

record JointConstraint = KinematicConstraint +
  joint_model :: "JointModel option"
  joint_is_continuous :: bool
  joint_position :: double
  joint_tolerance_above :: double
  joint_tolerance_below :: double

definition JointConstraint_use ::
  "JointConstraint \<Rightarrow> JointConstraintMsg \<Rightarrow> bool \<times> JointConstraint \<times> log" where
  "JointConstraint_use c jc =
     (let c = c\<lparr>joint_model := getJointModel (model c) (jc_joint_name jc)\<rparr>;
          c = c\<lparr>joint_is_continuous := False\<rparr>
      in case joint_model c of
           None \<Rightarrow> (False, c, [])
         | Some jm \<Rightarrow>
             (let c = (if jm_revolute_continuous jm = Some True
                       then c\<lparr>joint_is_continuous := True,
                              joint_position := btNormalizeAngle (jc_position jc)\<rparr>
                       else c\<lparr>joint_position := jc_position jc\<rparr>);
                  (c, log1) =
                    (if jm_variable_count jm = 0
                     then (c\<lparr>joint_model := None\<rparr>,
                           [(ROS_ERROR, JointHasNoParameters (jc_joint_name jc))])
                     else if jm_variable_count jm > 1
                     then (c\<lparr>joint_model := None\<rparr>,
                           [(ROS_ERROR, JointHasMoreThanOneParameter (jc_joint_name jc))])
                     else (c, []));
                  c = c\<lparr>joint_tolerance_above := jc_tolerance_above jc\<rparr>;
                  c = c\<lparr>joint_tolerance_below := jc_tolerance_below jc\<rparr>;
                  (c, log2) =
                    (if jc_weight jc \<le> epsilon
                     then (c, [(ROS_WARN, JointWeightShouldBePositive (jc_joint_name jc))])
                     else (c\<lparr>constraint_weight := jc_weight jc\<rparr>, []))
              in (joint_model c \<noteq> None, c, log1 @ log2)))"

definition JointConstraint_dif :: "JointConstraint \<Rightarrow> double \<Rightarrow> double" where
  \<comment> \<open>the value of \<^verbatim>\<open>dif\<close> when the bounds are checked (lines 108 to 125)\<close>
  "JointConstraint_dif c current_joint_position =
     (if joint_is_continuous c
      then (let dif = btNormalizeAngle current_joint_position - joint_position c;
                dif = (if dif > SIMD_PI then SIMD_2_PI - dif
                       else if dif < - SIMD_PI then dif + SIMD_2_PI
                       else dif)
            in if current_joint_position < joint_position c then - dif else dif)
      else current_joint_position - joint_position c)"

definition JointConstraint_decide ::
  "JointConstraint \<Rightarrow> KinematicState \<Rightarrow> bool \<Rightarrow> error + decision \<times> log" where
  "JointConstraint_decide c state verbose =
     (case joint_model c of
        None \<Rightarrow> Inr ((True, Finite 0), [])
      | Some jm \<Rightarrow>
          (case getJointState state (jm_name jm) of
             None \<Rightarrow> Inr ((False, Finite 0), [(ROS_WARN, NoJointInState (jm_name jm))])
           | Some joint \<Rightarrow>
               (case getVariableValues joint of
                  [] \<Rightarrow> Inl OutOfRange
                | current_joint_position # _ \<Rightarrow>
                    (let dif = JointConstraint_dif c current_joint_position;
                         result = (dif \<le> joint_tolerance_above c \<and> dif \<ge> - joint_tolerance_below c)
                     in Inr ((result, constraint_weight c * \<bar>dif\<bar>),
                             if verbose
                             then [(ROS_INFO, JointConstraintDecision result (js_name joint)
                                      current_joint_position (joint_position c)
                                      (joint_tolerance_above c) (joint_tolerance_below c))]
                             else [])))))"

definition JointConstraint_enabled :: "JointConstraint \<Rightarrow> bool" where
  "JointConstraint_enabled c = (joint_model c \<noteq> None)"

definition JointConstraint_clear :: "JointConstraint \<Rightarrow> JointConstraint" where
  "JointConstraint_clear c = c\<lparr>joint_model := None\<rparr>"

subsection \<open>Library functions the file calls\<close>

record CollisionRequest =
  req_contacts :: bool
  req_max_contacts :: nat

record Contact =
  depth :: double

record CollisionResult =
  collision :: bool
  contacts :: "Contact list"

type_synonym CollisionWorld = "(string \<times> Mesh \<times> btTransform) list"

text \<open>
  The conversions of \<^verbatim>\<open>planning_models\<close>, the shapes and bodies of
  \<^verbatim>\<open>geometric_shapes\<close>, Bullet's matrix operations and the collision checker are not
  part of the file either. They are the fields of a record \<open>L\<close> that every operation
  takes; shapes and bodies are type parameters. A function that writes its result
  through a reference returns it: \<open>poseFromMsg\<close> gives the success flag and the pose it
  stores, \<open>getEulerYPR\<close> gives \<open>(yaw, pitch, roll)\<close>. The sine, cosine and arc cosine
  of the C library are fields too, for the finite arguments of their domain: their
  results need not be the correctly rounded ones.
\<close>

record ('shape_msg, 'shape, 'body) Library =
  poseFromMsg :: "Pose \<Rightarrow> bool \<times> btTransform"
  quatFromMsg :: "btQuaternion \<Rightarrow> bool \<times> btQuaternion"
  constructShapeFromMsg :: "'shape_msg \<Rightarrow> 'shape option"
  createBodyFromShape :: "'shape \<Rightarrow> 'body option"
  setPose :: "'body \<Rightarrow> btTransform \<Rightarrow> 'body"
  getPose :: "'body \<Rightarrow> btTransform"
  cloneAt :: "'body \<Rightarrow> btTransform \<Rightarrow> 'body"
  containsPoint :: "'body \<Rightarrow> btVector3 \<Rightarrow> bool"
  matrix_of_quaternion :: "btQuaternion \<Rightarrow> btMatrix3x3"
  inverse_matrix :: "btMatrix3x3 \<Rightarrow> btMatrix3x3"
  times_matrix :: "btMatrix3x3 \<Rightarrow> btMatrix3x3 \<Rightarrow> btMatrix3x3"
  getEulerYPR :: "btMatrix3x3 \<Rightarrow> double \<times> double \<times> double"
  checkRobotCollision ::
    "CollisionRequest \<Rightarrow> CollisionWorld \<Rightarrow> KinematicModel \<Rightarrow> KinematicState \<Rightarrow> CollisionResult"
  libm_sin :: "real \<Rightarrow> double"
  libm_cos :: "real \<Rightarrow> double"
  libm_acos :: "real \<Rightarrow> double"

definition c_sin :: "('sm, 'sh, 'body) Library \<Rightarrow> double \<Rightarrow> double" where
  \<comment> \<open>\<^verbatim>\<open>sin\<close>: NaN for an infinity and for NaN\<close>
  "c_sin L x = (case x of Finite a \<Rightarrow> libm_sin L a | _ \<Rightarrow> NaN)"

definition c_cos :: "('sm, 'sh, 'body) Library \<Rightarrow> double \<Rightarrow> double" where
  "c_cos L x = (case x of Finite a \<Rightarrow> libm_cos L a | _ \<Rightarrow> NaN)"

definition c_acos :: "('sm, 'sh, 'body) Library \<Rightarrow> double \<Rightarrow> double" where
  \<comment> \<open>\<^verbatim>\<open>acos\<close>: NaN outside \<open>[-1, 1]\<close> and for NaN\<close>
  "c_acos L x =
     (case x of
        Finite a \<Rightarrow> if - 1 \<le> a \<and> a \<le> 1 then libm_acos L a else NaN
      | _ \<Rightarrow> NaN)"

subsection \<open>PositionConstraint\<close>

record 'body PositionConstraint = KinematicConstraint +
  position_link_model :: "LinkModel option"
  offset :: btVector3
  has_offset :: bool
  constraint_region :: "'body option"
  constraint_region_pose :: btTransform
  constraint_frame_id :: string
  position_mobile_frame :: bool

definition PositionConstraint_use ::
  "('sm, 'sh, 'body) Library \<Rightarrow> 'body PositionConstraint \<Rightarrow> 'sm PositionConstraintMsg
   \<Rightarrow> bool \<times> 'body PositionConstraint \<times> log" where
  "PositionConstraint_use L c pc =
     (let c = c\<lparr>position_link_model := getLinkModel (model c) (pc_link_name pc)\<rparr>;
          c = c\<lparr>offset := btVector3 (point_x (pc_target_point_offset pc))
                                    (point_y (pc_target_point_offset pc))
                                    (point_z (pc_target_point_offset pc))\<rparr>;
          c = c\<lparr>has_offset := (length2 (offset c) > epsilon)\<rparr>;
          c = (case constructShapeFromMsg L (pc_constraint_region_shape pc) of
                 None \<Rightarrow> c
               | Some shape \<Rightarrow> c\<lparr>constraint_region := createBodyFromShape L shape\<rparr>)
      in case (position_link_model c, constraint_region c) of
           (Some lm, Some region) \<Rightarrow>
             (let (ok, p) = poseFromMsg L (ps_pose (pc_constraint_region_pose pc));
                  c = c\<lparr>constraint_region_pose := p\<rparr>;
                  log1 = (if ok then []
                          else [(ROS_WARN, IncorrectOrientationInPose (pc_link_name pc))]);
                  c = (if isFixedFrame (tf c) (ps_frame_id (pc_constraint_region_pose pc))
                       then
                         (let c = c\<lparr>constraint_region_pose :=
                                      transformTransform (tf c) (constraint_region_pose c)
                                        (ps_frame_id (pc_constraint_region_pose pc))\<rparr>;
                              c = c\<lparr>constraint_frame_id := getPlanningFrame (tf c)\<rparr>;
                              c = c\<lparr>constraint_region :=
                                      Some (setPose L region (constraint_region_pose c))\<rparr>
                          in c\<lparr>position_mobile_frame := False\<rparr>)
                       else
                         (let c = c\<lparr>constraint_frame_id :=
                                      ps_frame_id (pc_constraint_region_pose pc)\<rparr>
                          in c\<lparr>position_mobile_frame := True\<rparr>));
                  (c, log2) =
                    (if pc_weight pc \<le> epsilon
                     then (c, [(ROS_WARN, PositionWeightShouldBePositive (pc_link_name pc))])
                     else (c\<lparr>constraint_weight := pc_weight pc\<rparr>, []))
              in (True, c, log1 @ log2))
         | _ \<Rightarrow> (False, c, []))"

definition finishPositionConstraintDecision ::
  "btVector3 \<Rightarrow> btVector3 \<Rightarrow> string \<Rightarrow> double \<Rightarrow> bool \<Rightarrow> bool \<Rightarrow> decision \<times> log" where
  "finishPositionConstraintDecision pt desired name weight result verbose =
     (let dx = vec_x desired - vec_x pt;
          dy = vec_y desired - vec_y pt;
          dz = vec_z desired - vec_z pt
      in ((result, weight * double_sqrt (dx * dx + dy * dy + dz * dz)),
          if verbose then [(ROS_INFO, PositionConstraintDecision result name desired pt)]
          else []))"

definition PositionConstraint_decide ::
  "('sm, 'sh, 'body) Library \<Rightarrow> 'body PositionConstraint \<Rightarrow> KinematicState \<Rightarrow> bool
   \<Rightarrow> error + decision \<times> log" where
  "PositionConstraint_decide L c state verbose =
     (case (position_link_model c, constraint_region c) of
        (Some lm, Some region) \<Rightarrow>
          (case getLinkState state (lm_name lm) of
             None \<Rightarrow> Inr ((False, Finite 0), [(ROS_WARN, NoLinkInState (lm_name lm))])
           | Some link_state \<Rightarrow>
               (let pt = apply_transform (getGlobalLinkTransform link_state) (offset c)
                in if position_mobile_frame c
                   then
                     (let tmp = transformTransformAtState (tf c) state
                                  (constraint_region_pose c) (constraint_frame_id c);
                          result = containsPoint L (cloneAt L region tmp) pt
                      in Inr (finishPositionConstraintDecision pt (getOrigin tmp) (lm_name lm)
                                (constraint_weight c) result verbose))
                   else
                     (let result = containsPoint L region pt
                      in Inr (finishPositionConstraintDecision pt
                                (getOrigin (getPose L region)) (lm_name lm)
                                (constraint_weight c) result verbose))))
      | _ \<Rightarrow> Inr ((True, Finite 0), []))"

definition PositionConstraint_clear :: "'body PositionConstraint \<Rightarrow> 'body PositionConstraint" where
  "PositionConstraint_clear c = c\<lparr>position_link_model := None, constraint_region := None\<rparr>"

definition PositionConstraint_enabled :: "'body PositionConstraint \<Rightarrow> bool" where
  "PositionConstraint_enabled c =
     (position_link_model c \<noteq> None \<and> constraint_region c \<noteq> None)"

subsection \<open>OrientationConstraint\<close>

record OrientationConstraint = KinematicConstraint +
  orientation_link_model :: "LinkModel option"
  desired_rotation_matrix :: btMatrix3x3
  desired_rotation_matrix_inv :: btMatrix3x3
  desired_rotation_frame_id :: string
  orientation_mobile_frame :: bool
  absolute_yaw_tolerance :: double
  absolute_pitch_tolerance :: double
  absolute_roll_tolerance :: double

definition OrientationConstraint_use ::
  "('sm, 'sh, 'body) Library \<Rightarrow> OrientationConstraint \<Rightarrow> OrientationConstraintMsg
   \<Rightarrow> bool \<times> OrientationConstraint \<times> log" where
  "OrientationConstraint_use L c oc =
     (let c = c\<lparr>orientation_link_model := getLinkModel (model c) (oc_link_name oc)\<rparr>;
          (ok, q) = quatFromMsg L (qs_quaternion (oc_orientation oc));
          log1 = (if ok then []
                  else [(ROS_WARN, OrientationProbablyIncorrect (oc_link_name oc)
                           (qs_quaternion (oc_orientation oc)))]);
          c = (if isFixedFrame (tf c) (qs_frame_id (oc_orientation oc))
               then
                 (let q = transformQuaternion (tf c) q (qs_frame_id (oc_orientation oc));
                      c = c\<lparr>desired_rotation_frame_id := getPlanningFrame (tf c)\<rparr>;
                      c = c\<lparr>desired_rotation_matrix := matrix_of_quaternion L q\<rparr>;
                      c = c\<lparr>desired_rotation_matrix_inv :=
                              inverse_matrix L (desired_rotation_matrix c)\<rparr>
                  in c\<lparr>orientation_mobile_frame := False\<rparr>)
               else
                 (let c = c\<lparr>desired_rotation_frame_id := qs_frame_id (oc_orientation oc)\<rparr>;
                      c = c\<lparr>desired_rotation_matrix := matrix_of_quaternion L q\<rparr>
                  in c\<lparr>orientation_mobile_frame := True\<rparr>));
          (c, log2) =
            (if oc_weight oc \<le> epsilon
             then (c, [(ROS_WARN, OrientationWeightShouldBePositive (oc_link_name oc))])
             else (c\<lparr>constraint_weight := oc_weight oc\<rparr>, []));
          c = c\<lparr>absolute_yaw_tolerance := \<bar>oc_absolute_yaw_tolerance oc\<bar>\<rparr>;
          c = c\<lparr>absolute_pitch_tolerance := \<bar>oc_absolute_pitch_tolerance oc\<bar>\<rparr>;
          c = c\<lparr>absolute_roll_tolerance := \<bar>oc_absolute_roll_tolerance oc\<bar>\<rparr>
      in (orientation_link_model c \<noteq> None, c, log1 @ log2))"

definition OrientationConstraint_clear :: "OrientationConstraint \<Rightarrow> OrientationConstraint" where
  "OrientationConstraint_clear c = c\<lparr>orientation_link_model := None\<rparr>"

definition OrientationConstraint_enabled :: "OrientationConstraint \<Rightarrow> bool" where
  "OrientationConstraint_enabled c = (orientation_link_model c \<noteq> None)"

definition OrientationConstraint_error ::
  "('sm, 'sh, 'body) Library \<Rightarrow> OrientationConstraint \<Rightarrow> KinematicState \<Rightarrow> LinkState
   \<Rightarrow> double \<times> double \<times> double" where
  \<comment> \<open>\<open>(yaw, pitch, roll)\<close> of the rotation difference (lines 339 to 351)\<close>
  "OrientationConstraint_error L c state link_state =
     (if orientation_mobile_frame c
      then
        (let tmp = transformMatrixAtState (tf c) state (desired_rotation_matrix c)
                     (desired_rotation_frame_id c);
             diff = times_matrix L (inverse_matrix L tmp)
                      (getBasis (getGlobalLinkTransform link_state))
         in getEulerYPR L diff)
      else
        (let diff = times_matrix L (desired_rotation_matrix_inv c)
                      (getBasis (getGlobalLinkTransform link_state))
         in getEulerYPR L diff))"

definition OrientationConstraint_decide ::
  "('sm, 'sh, 'body) Library \<Rightarrow> OrientationConstraint \<Rightarrow> KinematicState \<Rightarrow> bool
   \<Rightarrow> error + decision \<times> log" where
  "OrientationConstraint_decide L c state verbose =
     (case orientation_link_model c of
        None \<Rightarrow> Inr ((True, Finite 0), [])
      | Some lm \<Rightarrow>
          (case getLinkState state (lm_name lm) of
             None \<Rightarrow> Inr ((False, Finite 0), [(ROS_WARN, NoLinkInState (lm_name lm))])
           | Some link_state \<Rightarrow>
               (let (yaw, pitch, roll) = OrientationConstraint_error L c state link_state;
                    result = (\<bar>roll\<bar> < absolute_roll_tolerance c
                              \<and> \<bar>pitch\<bar> < absolute_pitch_tolerance c
                              \<and> \<bar>yaw\<bar> < absolute_yaw_tolerance c)
                in Inr ((result, constraint_weight c * (\<bar>roll\<bar> + \<bar>pitch\<bar> + \<bar>yaw\<bar>)),
                        if verbose
                        then [(ROS_INFO, OrientationConstraintDecision result (lm_name lm)
                                 roll pitch yaw (absolute_roll_tolerance c)
                                 (absolute_pitch_tolerance c) (absolute_yaw_tolerance c))]
                        else []))))"

subsection \<open>VisibilityConstraint\<close>

record VisibilityConstraint = KinematicConstraint +
  cr :: KinematicModel
    \<comment> \<open>the \<^verbatim>\<open>CollisionRobotAllValid\<close> built from the model\<close>
  cw :: CollisionWorld
    \<comment> \<open>the objects of the private collision world\<close>
  target_radius :: double
  cone_sides :: nat
  points :: "btVector3 list"
  target_pose :: btTransform
  target_frame_id :: string
  mobile_target_frame :: bool
  sensor_pose :: btTransform
  sensor_frame_id :: string
  mobile_sensor_frame :: bool
  max_view_angle :: double

definition VisibilityConstraint_clear :: "VisibilityConstraint \<Rightarrow> VisibilityConstraint" where
  "VisibilityConstraint_clear c = c\<lparr>target_radius := Finite (- 1)\<rparr>"

fun cone_points ::
  "('sm, 'sh, 'body) Library \<Rightarrow> nat \<Rightarrow> double \<Rightarrow> double \<Rightarrow> double \<Rightarrow> btVector3 list" where
  \<comment> \<open>the loop of \<^verbatim>\<open>use\<close> that fills \<^verbatim>\<open>points_\<close>: \<open>n\<close> iterations are left, the
      angle is \<open>a\<close>\<close>
  "cone_points L 0 a delta radius = []"
| "cone_points L (Suc n) a delta radius =
     (let x = c_sin L a * radius; y = c_cos L a * radius
      in btVector3 x y (Finite 0) # cone_points L n (a + delta) delta radius)"

definition VisibilityConstraint_use ::
  "('sm, 'sh, 'body) Library \<Rightarrow> VisibilityConstraint \<Rightarrow> VisibilityConstraintMsg
   \<Rightarrow> bool \<times> VisibilityConstraint \<times> log" where
  "VisibilityConstraint_use L c vc =
     (let c = c\<lparr>target_radius := \<bar>vc_target_radius vc\<bar>\<rparr>;
          log1 = (if vc_target_radius vc \<le> epsilon then [(ROS_WARN, RadiusShouldBePositive)]
                  else []);
          (c, log2) =
            (if vc_cone_sides vc < 3
             then (c\<lparr>cone_sides := 3\<rparr>, [(ROS_WARN, ConeSidesMustBeThreeOrMore (vc_cone_sides vc))])
             else (c\<lparr>cone_sides := nat (vc_cone_sides vc)\<rparr>, []));
          delta = SIMD_2_PI / round_double (real (cone_sides c));
          c = c\<lparr>points := cone_points L (cone_sides c) (Finite 0) delta (target_radius c)\<rparr>;
          (ok, p) = poseFromMsg L (ps_pose (vc_target_pose vc));
          c = c\<lparr>target_pose := p\<rparr>;
          log3 = (if ok then [] else [(ROS_WARN, IncorrectOrientationInTargetPose)]);
          c = (if isFixedFrame (tf c) (ps_frame_id (vc_target_pose vc))
               then
                 (let c = c\<lparr>target_pose := transformTransform (tf c) (target_pose c)
                                              (ps_frame_id (vc_target_pose vc))\<rparr>;
                      c = c\<lparr>target_frame_id := getPlanningFrame (tf c)\<rparr>;
                      c = c\<lparr>mobile_target_frame := False\<rparr>
                  in c\<lparr>points := map (apply_transform (target_pose c)) (points c)\<rparr>)
               else
                 (let c = c\<lparr>target_frame_id := ps_frame_id (vc_target_pose vc)\<rparr>
                  in c\<lparr>mobile_target_frame := True\<rparr>));
          (ok, p) = poseFromMsg L (ps_pose (vc_sensor_pose vc));
          c = c\<lparr>sensor_pose := p\<rparr>;
          log4 = (if ok then [] else [(ROS_WARN, IncorrectOrientationInSensorPose)]);
          c = (if isFixedFrame (tf c) (ps_frame_id (vc_sensor_pose vc))
               then
                 (let c = c\<lparr>sensor_pose := transformTransform (tf c) (sensor_pose c)
                                              (ps_frame_id (vc_sensor_pose vc))\<rparr>;
                      c = c\<lparr>sensor_frame_id := getPlanningFrame (tf c)\<rparr>
                  in c\<lparr>mobile_sensor_frame := False\<rparr>)
               else
                 (let c = c\<lparr>sensor_frame_id := ps_frame_id (vc_sensor_pose vc)\<rparr>
                  in c\<lparr>mobile_sensor_frame := True\<rparr>));
          (c, log5) =
            (if vc_weight vc \<le> epsilon
             then (c, [(ROS_WARN, VisibilityWeightShouldBePositive)])
             else (c\<lparr>constraint_weight := vc_weight vc\<rparr>, []));
          c = c\<lparr>max_view_angle := vc_max_view_angle vc\<rparr>
      in (target_radius c > epsilon, c, log1 @ log2 @ log3 @ log4 @ log5))"

definition VisibilityConstraint_enabled :: "VisibilityConstraint \<Rightarrow> bool" where
  "VisibilityConstraint_enabled c = (target_radius c > epsilon)"

text \<open>
  Writes into the arrays of the mesh. \<open>store_back a n k v\<close> is \<^verbatim>\<open>a[n - k] = v\<close> on
  \<^verbatim>\<open>std::size_t\<close>: for \<open>n < k\<close> the index wraps around to the top of the range, which no
  array reaches.
\<close>

definition store :: "'a list \<Rightarrow> nat \<Rightarrow> 'a \<Rightarrow> error + 'a list" where
  "store a i v = (if i < length a then Inr (a[i := v]) else Inl OutOfRange)"

definition store_back :: "'a list \<Rightarrow> nat \<Rightarrow> nat \<Rightarrow> 'a \<Rightarrow> error + 'a list" where
  "store_back a n k v = (if n < k then Inl OutOfRange else store a (n - k) v)"

definition store3 :: "'a list \<Rightarrow> nat \<Rightarrow> 'a \<Rightarrow> 'a \<Rightarrow> 'a \<Rightarrow> error + 'a list" where
  \<comment> \<open>three consecutive cells from \<open>i\<close> on\<close>
  "store3 a i u v w =
     (case store a i u of Inl e \<Rightarrow> Inl e
      | Inr a \<Rightarrow> (case store a (i + 1) v of Inl e \<Rightarrow> Inl e
                  | Inr a \<Rightarrow> store a (i + 2) w))"

definition store_back3 :: "'a list \<Rightarrow> nat \<Rightarrow> 'a \<Rightarrow> 'a \<Rightarrow> 'a \<Rightarrow> error + 'a list" where
  \<comment> \<open>the cells \<open>n - 3\<close>, \<open>n - 2\<close> and \<open>n - 1\<close>\<close>
  "store_back3 a n u v w =
     (case store_back a n 3 u of Inl e \<Rightarrow> Inl e
      | Inr a \<Rightarrow> (case store_back a n 2 v of Inl e \<Rightarrow> Inl e
                  | Inr a \<Rightarrow> store_back a n 1 w))"

fun cone_vertices :: "btVector3 list \<Rightarrow> nat \<Rightarrow> double list \<Rightarrow> error + double list" where
  \<comment> \<open>the loop over the points of the base disc; \<open>i\<close> is the index of the first point left\<close>
  "cone_vertices [] i vs = Inr vs"
| "cone_vertices (p # ps) i vs =
     (case store3 vs (i * 3 + 6) (vec_x p) (vec_y p) (vec_z p) of
        Inl e \<Rightarrow> Inl e
      | Inr vs \<Rightarrow> cone_vertices ps (Suc i) vs)"

fun cone_triangles :: "nat \<Rightarrow> nat \<Rightarrow> nat \<Rightarrow> nat list \<Rightarrow> error + nat list" where
  \<comment> \<open>the loop \<^verbatim>\<open>for (i = 1; i < points->size(); ++i)\<close>: \<open>n\<close> iterations are left\<close>
  "cone_triangles 0 i p3 ts = Inr ts"
| "cone_triangles (Suc n) i p3 ts =
     (let i3 = (i - 1) * 3
      in case store3 ts i3 (i + 1) 0 (i + 2) of
           Inl e \<Rightarrow> Inl e
         | Inr ts \<Rightarrow>
             (let i6 = p3 + i3
              in case store3 ts i6 (i + 1) 1 (i + 2) of
                   Inl e \<Rightarrow> Inl e
                 | Inr ts \<Rightarrow> cone_triangles n (Suc i) p3 ts))"

definition getVisibilityCone :: "VisibilityConstraint \<Rightarrow> KinematicState \<Rightarrow> error + Mesh" where
  \<comment> \<open>The arrays are allocated without initial values; the model starts them at 0.
      \<^verbatim>\<open>new\<close> never gives \<^verbatim>\<open>NULL\<close>.\<close>
  "getVisibilityCone c state =
     (let sp = (if mobile_sensor_frame c
                then getTransformToTargetFrame (tf c) state (sensor_frame_id c)
                else sensor_pose c);
          tp = (if mobile_target_frame c
                then getTransformToTargetFrame (tf c) state (target_frame_id c)
                else target_pose c);
          pts = (if mobile_target_frame c then map (apply_transform tp) (points c)
                 else points c);
          n_vertices = cone_sides c + 2;
          n_triangles = cone_sides c * 2
      in case store3 (replicate (n_vertices * 3) (Finite 0)) 0
                (vec_x (getOrigin sp)) (vec_y (getOrigin sp)) (vec_z (getOrigin sp)) of
           Inl e \<Rightarrow> Inl e
         | Inr vs \<Rightarrow>
         (case store3 vs 3 (vec_x (getOrigin tp)) (vec_y (getOrigin tp)) (vec_z (getOrigin tp)) of
           Inl e \<Rightarrow> Inl e
         | Inr vs \<Rightarrow>
         (case cone_vertices pts 0 vs of
           Inl e \<Rightarrow> Inl e
         | Inr vs \<Rightarrow>
         (let p3 = length pts * 3
          in case cone_triangles (length pts - 1) 1 p3 (replicate (n_triangles * 3) 0) of
               Inl e \<Rightarrow> Inl e
             | Inr ts \<Rightarrow>
             (case store_back3 ts p3 (length pts + 1) 0 2 of
               Inl e \<Rightarrow> Inl e
             | Inr ts \<Rightarrow>
             (let p3 = p3 * 2
              in case store_back3 ts p3 (length pts + 1) 1 2 of
                   Inl e \<Rightarrow> Inl e
                 | Inr ts \<Rightarrow>
                     Inr \<lparr>vertex_count = n_vertices, vertices = vs,
                          triangle_count = n_triangles, triangles = ts\<rparr>))))))"

definition view_angle ::
  "('sm, 'sh, 'body) Library \<Rightarrow> VisibilityConstraint \<Rightarrow> KinematicState \<Rightarrow> double" where
  \<comment> \<open>\<^verbatim>\<open>ang\<close> (lines 545 to 549): the angle between the direction from the sensor to the
      target and the Z axis of the target\<close>
  "view_angle L c state =
     (let sp = (if mobile_sensor_frame c
                then getTransformToTargetFrame (tf c) state (sensor_frame_id c)
                else sensor_pose c);
          tp = (if mobile_target_frame c
                then getTransformToTargetFrame (tf c) state (target_frame_id c)
                else target_pose c);
          dir = normalized (minus_vec (getOrigin tp) (getOrigin sp));
          normal = getColumn (getBasis tp) 2
      in c_acos L (dot dir normal))"

definition cone_collision_test ::
  "('sm, 'sh, 'body) Library \<Rightarrow> VisibilityConstraint \<Rightarrow> KinematicState \<Rightarrow> bool
   \<Rightarrow> error + decision \<times> log \<times> VisibilityConstraint" where
  \<comment> \<open>The rest of \<^verbatim>\<open>decide\<close> from line 558 on: the cone replaces the objects of the
      collision world and is tested against the robot. \<^verbatim>\<open>new\<close> never gives
      \<^verbatim>\<open>NULL\<close>, so the test of \<^verbatim>\<open>m\<close> has no branch here.\<close>
  "cone_collision_test L c state verbose =
     (case getVisibilityCone c state of
        Inl e \<Rightarrow> Inl e
      | Inr m \<Rightarrow>
          (let c = c\<lparr>cw := []\<rparr>;
               c = c\<lparr>cw := cw c @ [(''cone'', m, getIdentity)]\<rparr>;
               req = \<lparr>req_contacts = True, req_max_contacts = 1\<rparr>;
               res = checkRobotCollision L req (cw c) (cr c) state;
               lg = (if verbose
                     then [(ROS_INFO, VisibilityConstraintDecision (\<not> collision res) m)]
                     else [])
           in if collision res
              then (case contacts res of
                      [] \<Rightarrow> Inl OutOfRange
                    | ct # _ \<Rightarrow> Inr ((False, depth ct), lg, c))
              else Inr ((True, Finite 0), lg, c)))"

definition VisibilityConstraint_decide ::
  "('sm, 'sh, 'body) Library \<Rightarrow> VisibilityConstraint \<Rightarrow> KinematicState \<Rightarrow> bool
   \<Rightarrow> error + decision \<times> log \<times> VisibilityConstraint" where
  "VisibilityConstraint_decide L c state verbose =
     (if target_radius c \<le> epsilon then Inr ((True, Finite 0), [], c)
      else if max_view_angle c > Finite 0
      then (let ang = view_angle L c state
            in if max_view_angle c < ang
               then Inr ((False, Finite 0),
                         if verbose
                         then [(ROS_INFO, ViewAngleAboveMaximum ang (max_view_angle c))]
                         else [],
                         c)
               else cone_collision_test L c state verbose)
      else cone_collision_test L c state verbose)"

subsection \<open>KinematicConstraintSet\<close>

datatype 'body Constraint =
    Joint JointConstraint
  | Position "'body PositionConstraint"
  | Orientation OrientationConstraint
  | Visibility VisibilityConstraint

fun Constraint_decide ::
  "('sm, 'sh, 'body) Library \<Rightarrow> 'body Constraint \<Rightarrow> KinematicState \<Rightarrow> bool
   \<Rightarrow> error + decision \<times> log \<times> 'body Constraint" where
  \<comment> \<open>the virtual call \<^verbatim>\<open>kce_[i]->decide(state, verbose)\<close>; only a visibility constraint
      changes (its collision world)\<close>
  "Constraint_decide L (Joint c) state verbose =
     (case JointConstraint_decide c state verbose of
        Inl e \<Rightarrow> Inl e | Inr (r, lg) \<Rightarrow> Inr (r, lg, Joint c))"
| "Constraint_decide L (Position c) state verbose =
     (case PositionConstraint_decide L c state verbose of
        Inl e \<Rightarrow> Inl e | Inr (r, lg) \<Rightarrow> Inr (r, lg, Position c))"
| "Constraint_decide L (Orientation c) state verbose =
     (case OrientationConstraint_decide L c state verbose of
        Inl e \<Rightarrow> Inl e | Inr (r, lg) \<Rightarrow> Inr (r, lg, Orientation c))"
| "Constraint_decide L (Visibility c) state verbose =
     (case VisibilityConstraint_decide L c state verbose of
        Inl e \<Rightarrow> Inl e | Inr (r, lg, c') \<Rightarrow> Inr (r, lg, Visibility c'))"

record ('shape_msg, 'body) KinematicConstraintSet =
  set_model :: KinematicModel
  set_tf :: Transforms
  kce :: "'body Constraint list"
  set_jc :: "JointConstraintMsg list"
  set_pc :: "'shape_msg PositionConstraintMsg list"
  set_oc :: "OrientationConstraintMsg list"
  set_vc :: "VisibilityConstraintMsg list"

fun decide_loop ::
  "('sm, 'sh, 'body) Library \<Rightarrow> 'body Constraint list \<Rightarrow> KinematicState \<Rightarrow> bool
   \<Rightarrow> bool \<Rightarrow> double \<Rightarrow> error + decision \<times> log \<times> 'body Constraint list" where
  \<comment> \<open>the loop of \<^verbatim>\<open>KinematicConstraintSet::decide\<close> over the constraints that are left,
      with the current \<^verbatim>\<open>result\<close> and \<^verbatim>\<open>d\<close>\<close>
  "decide_loop L [] state verbose result d = Inr ((result, d), [], [])"
| "decide_loop L (k # ks) state verbose result d =
     (case Constraint_decide L k state verbose of
        Inl e \<Rightarrow> Inl e
      | Inr (r, lg, k') \<Rightarrow>
          (let result = (if \<not> fst r then False else result);
               d = d + snd r
           in case decide_loop L ks state verbose result d of
                Inl e \<Rightarrow> Inl e
              | Inr (res, lgs, ks') \<Rightarrow> Inr (res, lg @ lgs, k' # ks')))"

definition KinematicConstraintSet_decide ::
  "('sm, 'sh, 'body) Library \<Rightarrow> ('sm, 'body) KinematicConstraintSet \<Rightarrow> KinematicState \<Rightarrow> bool
   \<Rightarrow> error + decision \<times> log \<times> ('sm, 'body) KinematicConstraintSet" where
  "KinematicConstraintSet_decide L s state verbose =
     (case decide_loop L (kce s) state verbose True (Finite 0) of
        Inl e \<Rightarrow> Inl e
      | Inr (res, lg, ks) \<Rightarrow> Inr (res, lg, s\<lparr>kce := ks\<rparr>))"

definition KinematicConstraintSet_clear ::
  "('sm, 'body) KinematicConstraintSet \<Rightarrow> ('sm, 'body) KinematicConstraintSet" where
  "KinematicConstraintSet_clear s = s\<lparr>kce := [], set_jc := [], set_pc := [], set_oc := [], set_vc := []\<rparr>"

subsection \<open>A small robot, for concrete evaluations\<close>

text \<open>
  A model with a continuous revolute joint \<open>''j''\<close>, a bounded revolute joint \<open>''k''\<close> and
  a link \<open>''l''\<close>; a transform provider with the single fixed frame \<open>''base''\<close> and
  identity transforms; a library in which a body is the unit ball around the origin of
  its pose, every rotation difference is zero, the collision checker reports no
  collision (as the \<^verbatim>\<open>allvalid\<close> checker of the constructor does) and the functions of
  the C library are the correctly rounded ones, the arc cosine of -1 being \<open>SIMD_PI\<close>.
\<close>

definition example_model :: KinematicModel where
  "example_model =
     \<lparr>getJointModel =
        [''j'' \<mapsto> \<lparr>jm_name = ''j'', jm_variable_count = 1, jm_revolute_continuous = Some True\<rparr>,
         ''k'' \<mapsto> \<lparr>jm_name = ''k'', jm_variable_count = 1, jm_revolute_continuous = Some False\<rparr>],
      getLinkModel = [''l'' \<mapsto> \<lparr>lm_name = ''l''\<rparr>]\<rparr>"

definition example_tf :: Transforms where
  "example_tf =
     \<lparr>isFixedFrame = (\<lambda>f. f = ''base''),
      getPlanningFrame = ''base'',
      transformTransform = (\<lambda>t f. t),
      transformQuaternion = (\<lambda>q f. q),
      transformTransformAtState = (\<lambda>s t f. t),
      transformMatrixAtState = (\<lambda>s m f. m),
      getTransformToTargetFrame = (\<lambda>s f. getIdentity)\<rparr>"

definition example_library :: "(unit, unit, btTransform) Library" where
  "example_library =
     \<lparr>poseFromMsg =
        (\<lambda>p. (True, \<lparr>getBasis = identity_matrix,
                      getOrigin = btVector3 (point_x (pose_position p))
                                    (point_y (pose_position p)) (point_z (pose_position p))\<rparr>)),
      quatFromMsg = (\<lambda>q. (True, q)),
      constructShapeFromMsg = (\<lambda>m. Some ()),
      createBodyFromShape = (\<lambda>s. Some getIdentity),
      setPose = (\<lambda>b p. p),
      getPose = (\<lambda>b. b),
      cloneAt = (\<lambda>b p. p),
      containsPoint = (\<lambda>b pt. length2 (minus_vec pt (getOrigin b)) \<le> Finite 1),
      matrix_of_quaternion = (\<lambda>q. identity_matrix),
      inverse_matrix = (\<lambda>m. m),
      times_matrix = (\<lambda>a b. b),
      getEulerYPR = (\<lambda>m. (Finite 0, Finite 0, Finite 0)),
      checkRobotCollision = (\<lambda>req w m s. \<lparr>collision = False, contacts = []\<rparr>),
      libm_sin = (\<lambda>x. round_double (sin x)),
      libm_cos = (\<lambda>x. round_double (cos x)),
      libm_acos = (\<lambda>x. if x = - 1 then SIMD_PI else round_double (arccos x))\<rparr>"

definition example_state :: "double \<Rightarrow> double \<Rightarrow> KinematicState" where
  \<comment> \<open>the state with the joint values \<open>vj\<close> and \<open>vk\<close> and the link at the origin\<close>
  "example_state vj vk =
     \<lparr>getJointState =
        [''j'' \<mapsto> \<lparr>js_name = ''j'', getVariableValues = [vj]\<rparr>,
         ''k'' \<mapsto> \<lparr>js_name = ''k'', getVariableValues = [vk]\<rparr>],
      getLinkState = [''l'' \<mapsto> \<lparr>getGlobalLinkTransform = getIdentity\<rparr>]\<rparr>"

definition empty_state :: KinematicState where
  \<comment> \<open>a state of another robot: it has none of the joints and links\<close>
  "empty_state = \<lparr>getJointState = Map.empty, getLinkState = Map.empty\<rparr>"

text \<open>
  Constraints as the constructors leave them: the base constructor sets the model, the
  transform provider and the weight \<open>epsilon\<close>; the other members are disabled or zero
  until \<open>use\<close> assigns them.
\<close>

definition new_JointConstraint :: JointConstraint where
  "new_JointConstraint =
     KinematicConstraint.extend (KinematicConstraint example_model example_tf)
       (JointConstraint.fields None False (Finite 0) (Finite 0) (Finite 0))"

definition new_PositionConstraint :: "btTransform PositionConstraint" where
  "new_PositionConstraint =
     KinematicConstraint.extend (KinematicConstraint example_model example_tf)
       (PositionConstraint.fields None (btVector3 (Finite 0) (Finite 0) (Finite 0)) False None
          getIdentity [] False)"

definition new_OrientationConstraint :: OrientationConstraint where
  "new_OrientationConstraint =
     KinematicConstraint.extend (KinematicConstraint example_model example_tf)
       (OrientationConstraint.fields None identity_matrix identity_matrix [] False
          (Finite 0) (Finite 0) (Finite 0))"

definition new_VisibilityConstraint :: VisibilityConstraint where
  "new_VisibilityConstraint =
     KinematicConstraint.extend (KinematicConstraint example_model example_tf)
       (VisibilityConstraint.fields example_model [] (Finite 0) 0 [] getIdentity [] False
          getIdentity [] False (Finite 0))"

definition joint_msg :: "string \<Rightarrow> double \<Rightarrow> double \<Rightarrow> double \<Rightarrow> double \<Rightarrow> JointConstraintMsg" where
  "joint_msg n p tol_above tol_below w =
     \<lparr>jc_joint_name = n, jc_position = p, jc_tolerance_above = tol_above,
      jc_tolerance_below = tol_below, jc_weight = w\<rparr>"

definition identity_quaternion :: btQuaternion where
  "identity_quaternion = \<lparr>quat_x = Finite 0, quat_y = Finite 0, quat_z = Finite 0, quat_w = Finite 1\<rparr>"

definition orientation_msg :: "string \<Rightarrow> double \<Rightarrow> double \<Rightarrow> OrientationConstraintMsg" where
  \<comment> \<open>the identity orientation in the fixed frame, with one tolerance for the three angles\<close>
  "orientation_msg n tol w =
     \<lparr>oc_link_name = n,
      oc_orientation = \<lparr>qs_frame_id = ''base'', qs_quaternion = identity_quaternion\<rparr>,
      oc_absolute_roll_tolerance = tol, oc_absolute_pitch_tolerance = tol,
      oc_absolute_yaw_tolerance = tol, oc_weight = w\<rparr>"

definition origin_pose :: "string \<Rightarrow> double \<Rightarrow> PoseStamped" where
  \<comment> \<open>the pose at height \<open>h\<close> above the origin of the frame, not rotated\<close>
  "origin_pose f h =
     \<lparr>ps_frame_id = f,
      ps_pose = \<lparr>pose_position = \<lparr>point_x = Finite 0, point_y = Finite 0, point_z = h\<rparr>,
                 pose_orientation = identity_quaternion\<rparr>\<rparr>"

definition position_msg :: "string \<Rightarrow> double \<Rightarrow> unit PositionConstraintMsg" where
  "position_msg n w =
     \<lparr>pc_link_name = n,
      pc_target_point_offset = \<lparr>point_x = Finite 0, point_y = Finite 0, point_z = Finite 0\<rparr>,
      pc_constraint_region_shape = (),
      pc_constraint_region_pose = origin_pose ''base'' (Finite 0),
      pc_weight = w\<rparr>"

definition visibility_msg ::
  "double \<Rightarrow> int \<Rightarrow> double \<Rightarrow> double \<Rightarrow> double \<Rightarrow> VisibilityConstraintMsg" where
  \<comment> \<open>the target at the origin, the sensor at height \<open>h\<close> above it\<close>
  "visibility_msg radius sides angle h w =
     \<lparr>vc_target_radius = radius, vc_cone_sides = sides,
      vc_target_pose = origin_pose ''base'' (Finite 0), vc_sensor_pose = origin_pose ''base'' h,
      vc_max_view_angle = angle, vc_weight = w\<rparr>"

definition wrap_constraint :: JointConstraint where
  \<comment> \<open>on the continuous joint: target 3.0, 0.5 above and 0.05 below, weight 1\<close>
  "wrap_constraint =
     fst (snd (JointConstraint_use new_JointConstraint
                 (joint_msg ''j'' (Finite 3) (Finite (1 / 2)) (literal (1 / 20)) (Finite 1))))"

definition plain_constraint :: JointConstraint where
  \<comment> \<open>on the continuous joint: target 1.0, 0.1 above and 1.0 below, weight 1\<close>
  "plain_constraint =
     fst (snd (JointConstraint_use new_JointConstraint
                 (joint_msg ''j'' (Finite 1) (literal (1 / 10)) (Finite 1) (Finite 1))))"

definition merge_first :: "unit Constraints" where
  "merge_first =
     \<lparr>joint_constraints = [joint_msg ''a'' (Finite 0) (Finite 0) (Finite 0) (Finite 1)],
      position_constraints = [], orientation_constraints = [], visibility_constraints = []\<rparr>"

definition merge_second :: "unit Constraints" where
  "merge_second =
     \<lparr>joint_constraints =
        [joint_msg ''b'' (Finite 1) (Finite 0) (Finite 0) (Finite 1),
         joint_msg ''a'' (Finite 5) (Finite 0) (Finite 0) (Finite 1),
         joint_msg ''b'' (Finite 2) (Finite 0) (Finite 0) (Finite 1)],
      position_constraints = [], orientation_constraints = [], visibility_constraints = []\<rparr>"

definition near_constraint :: JointConstraint where
  \<comment> \<open>on the bounded joint: target 0.25, 0.5 above and below, weight 1\<close>
  "near_constraint =
     fst (snd (JointConstraint_use new_JointConstraint
                 (joint_msg ''k'' (Finite (1 / 4)) (Finite (1 / 2)) (Finite (1 / 2)) (Finite 1))))"

definition far_constraint :: JointConstraint where
  \<comment> \<open>on the bounded joint: target 2.0, 1.0 above and below, weight 1\<close>
  "far_constraint =
     fst (snd (JointConstraint_use new_JointConstraint
                 (joint_msg ''k'' (Finite 2) (Finite 1) (Finite 1) (Finite 1))))"

definition unit_constraint :: JointConstraint where
  \<comment> \<open>on the bounded joint: target 0.0, 2.0 above and below, weight 1\<close>
  "unit_constraint =
     fst (snd (JointConstraint_use new_JointConstraint
                 (joint_msg ''k'' (Finite 0) (Finite 2) (Finite 2) (Finite 1))))"

definition tiny_constraint :: JointConstraint where
  \<comment> \<open>on the bounded joint: the target is the double just below 1.0, 2.0 above and below,
      weight 1\<close>
  "tiny_constraint =
     fst (snd (JointConstraint_use new_JointConstraint
                 (joint_msg ''k'' (Finite (1 - 1 / 2 ^ 53)) (Finite 2) (Finite 2) (Finite 1))))"

definition example_set :: "'b Constraint list \<Rightarrow> (unit, 'b) KinematicConstraintSet" where
  "example_set ks =
     \<lparr>set_model = example_model, set_tf = example_tf, kce = ks,
      set_jc = [], set_pc = [], set_oc = [], set_vc = []\<rparr>"

definition unit_ball_constraint :: "btTransform PositionConstraint" where
  "unit_ball_constraint =
     fst (snd (PositionConstraint_use example_library new_PositionConstraint
                 (position_msg ''l'' (Finite 1))))"

definition zero_tolerance_constraint :: OrientationConstraint where
  "zero_tolerance_constraint =
     fst (snd (OrientationConstraint_use example_library new_OrientationConstraint
                 (orientation_msg ''l'' (Finite 0) (Finite 1))))"

definition back_view_constraint :: "double \<Rightarrow> double \<Rightarrow> VisibilityConstraint" where
  \<comment> \<open>radius \<open>r\<close>, three sides, maximum view angle \<open>angle\<close>; the sensor is above the target
      and sees its back: the view angle is \<open>SIMD_PI\<close>\<close>
  "back_view_constraint r angle =
     fst (snd (VisibilityConstraint_use example_library new_VisibilityConstraint
                 (visibility_msg r 3 angle (Finite 1) (Finite 1))))"


section \<open>Properties\<close>

subsection \<open>Rounding\<close>

lemma pow2_powr: "pow2 e = 2 powr (of_int e)"
  by (simp add: pow2_def powr_int)

lemma pow2_pos: "0 < pow2 e"
  by (simp add: pow2_powr)

lemma pow2_add: "pow2 (a + b) = pow2 a * pow2 b"
  by (simp add: pow2_powr powr_add)

lemma pow2_diff: "pow2 a / pow2 b = pow2 (a - b)"
  by (simp add: pow2_powr powr_diff)

lemma pow2_less_iff: "pow2 a < pow2 b \<longleftrightarrow> a < b"
  by (simp add: pow2_powr)

lemma exponent_eqI:
  assumes "pow2 e \<le> \<bar>x\<bar>" and "\<bar>x\<bar> < pow2 (e + 1)"
  shows "exponent x = e"
proof -
  have pos: "0 < \<bar>x\<bar>" using assms(1) pow2_pos [of e] by linarith
  have "of_int e \<le> log 2 \<bar>x\<bar>"
    using assms(1) pos by (simp add: le_log_iff pow2_powr)
  moreover have "log 2 \<bar>x\<bar> < of_int e + 1"
    using assms(2) pos by (simp add: log_less_iff pow2_powr)
  ultimately show ?thesis
    unfolding exponent_def by (simp add: floor_eq_iff)
qed

lemma exponent_lower:
  assumes "x \<noteq> 0"
  shows "pow2 (exponent x) \<le> \<bar>x\<bar>"
proof -
  have pos: "0 < \<bar>x\<bar>" using assms by simp
  have "of_int (exponent x) \<le> log 2 \<bar>x\<bar>" unfolding exponent_def by simp
  then show ?thesis
    using pos by (simp add: le_log_iff pow2_powr)
qed

lemma round_half_even_of_int: "round_half_even (of_int n) = n"
  by (simp add: round_half_even_def)

lemma round_double_exact:
  assumes x: "x = of_int m * pow2 k" and m: "\<bar>m\<bar> < 2 ^ 53" and k: "- 1074 \<le> k"
    and b: "\<bar>x\<bar> < pow2 1024"
  shows "round_double x = Finite x"
proof (cases "x = 0")
  case True
  then show ?thesis by (simp add: round_double_def)
next
  case False
  define a where "a = max (exponent x) (- 1022) - 52"
  have "\<bar>x\<bar> = of_int \<bar>m\<bar> * pow2 k"
    using pow2_pos [of k] by (simp add: x abs_mult)
  also have "\<dots> < 2 ^ 53 * pow2 k"
  proof -
    have "(of_int \<bar>m\<bar> :: real) < of_int (2 ^ 53)" using m by (simp only: of_int_less_iff)
    then show ?thesis using pow2_pos [of k] by simp
  qed
  also have "\<dots> = pow2 (k + 53)"
  proof -
    have "(2::real) ^ 53 = pow2 53" by (simp add: pow2_def)
    then show ?thesis by (simp only: pow2_add mult.commute)
  qed
  finally have "pow2 (exponent x) < pow2 (k + 53)"
    using exponent_lower [OF False] by linarith
  then have "exponent x < k + 53" by (simp add: pow2_less_iff)
  then have j: "0 \<le> k - a" using k by (simp add: a_def)
  have "x / pow2 a = of_int m * (pow2 k / pow2 a)"
    by (simp add: x)
  also have "\<dots> = of_int m * pow2 (k - a)"
    by (simp only: pow2_diff)
  also have "\<dots> = of_int (m * 2 ^ nat (k - a))"
    using j by (simp add: pow2_def)
  finally have q: "x / pow2 a = of_int (m * 2 ^ nat (k - a))" .
  have "of_int (round_half_even (x / pow2 a)) * pow2 a = x / pow2 a * pow2 a"
    unfolding q round_half_even_of_int ..
  also have "\<dots> = x" using pow2_pos [of a] by simp
  finally have r: "of_int (round_half_even (x / pow2 a)) * pow2 a = x" .
  show ?thesis
    using False b r unfolding round_double_def Let_def a_def by simp
qed

lemma round_double_at:
  assumes "pow2 e \<le> \<bar>x\<bar>" and "\<bar>x\<bar> < pow2 (e + 1)"
  shows "round_double x =
           (let e' = max e (- 1022);
                ulp = pow2 (e' - 52);
                r = of_int (round_half_even (x / ulp)) * ulp
            in if pow2 1024 \<le> \<bar>r\<bar> then (if 0 < x then PInf else NInf) else Finite r)"
proof -
  have "x \<noteq> 0" using assms(1) pow2_pos [of e] by auto
  then show ?thesis
    by (simp add: round_double_def exponent_eqI [OF assms])
qed

lemma round_double_of_int:
  assumes "\<bar>n\<bar> < 2 ^ 53"
  shows "round_double (of_int n) = Finite (of_int n)"
proof -
  have "\<bar>of_int n :: real\<bar> < of_int (2 ^ 53)"
    using assms by (simp only: of_int_abs [symmetric] of_int_less_iff)
  then have "\<bar>of_int n :: real\<bar> < pow2 1024"
    by (simp add: pow2_def)
  then show ?thesis
    using assms by (intro round_double_exact [of _ n 0]) (simp_all add: pow2_def)
qed

lemma round_double_0 [simp]: "round_double 0 = Finite 0"
  by (simp add: round_double_def)

lemma round_double_1 [simp]: "round_double 1 = Finite 1"
  using round_double_of_int [of 1] by simp

lemma round_double_minus_1 [simp]: "round_double (- 1) = Finite (- 1)"
  using round_double_of_int [of "- 1"] by simp

lemmas double_ops =
  plus_double_def minus_double_def uminus_double_def times_double_def divide_double_def
  abs_double_def less_eq_double_def less_double_def

lemma not_less_NaN [simp]: "\<not> a < NaN" "\<not> NaN < a" "\<not> a \<le> NaN" "\<not> NaN \<le> a"
  by (cases a; simp add: double_ops)+

subsection \<open>Literals and angles\<close>

lemma literal_29: "literal (- (29 / 10)) = Finite (- (6530219459687219 / 2 ^ 51))"
  using round_double_at [of 1 "- (29 / 10)"]
  by (simp add: literal_def pow2_def round_half_even_def Let_def)

lemma literal_20: "literal (1 / 20) = Finite (3602879701896397 / 2 ^ 56)"
  using round_double_at [of "- 5" "1 / 20"]
  by (simp add: literal_def pow2_def round_half_even_def Let_def)

lemma literal_10: "literal (1 / 10) = Finite (3602879701896397 / 2 ^ 55)"
  using round_double_at [of "- 4" "1 / 10"]
  by (simp add: literal_def pow2_def round_half_even_def Let_def)

lemma trunc_small: "- 1 < r \<Longrightarrow> r < 1 \<Longrightarrow> trunc r = 0"
  unfolding trunc_def by (auto simp: floor_eq_iff ceiling_eq_iff)

lemma btNormalizeAngle_id:
  assumes "- (884279719003555 / 2 ^ 48) \<le> a" and "a \<le> 884279719003555 / 2 ^ 48"
  shows "btNormalizeAngle (Finite a) = Finite a"
proof -
  have "- 1 < a / (884279719003555 / 2 ^ 47)" "a / (884279719003555 / 2 ^ 47) < 1"
    using assms by (simp_all add: field_simps)
  then have "trunc (a / (884279719003555 / 2 ^ 47)) = 0" by (rule trunc_small)
  then show ?thesis
    using assms
    by (simp add: btNormalizeAngle_def btFmod_def SIMD_2_PI_def SIMD_PI_def double_ops Let_def)
qed

subsection \<open>The two joint constraints of the wrap example\<close>

lemma epsilon_less_1: "\<not> Finite 1 \<le> epsilon"
  by (simp add: epsilon_def double_ops)

lemma wrap_fields:
  "joint_model wrap_constraint =
     Some \<lparr>jm_name = ''j'', jm_variable_count = 1, jm_revolute_continuous = Some True\<rparr>"
  "joint_is_continuous wrap_constraint" "joint_position wrap_constraint = Finite 3"
  "joint_tolerance_above wrap_constraint = Finite (1 / 2)"
  "joint_tolerance_below wrap_constraint = literal (1 / 20)"
  "constraint_weight wrap_constraint = Finite 1"
  by (simp_all add: wrap_constraint_def JointConstraint_use_def joint_msg_def
      new_JointConstraint_def KinematicConstraint_def example_model_def
      KinematicConstraint.extend_def JointConstraint.fields_def Let_def btNormalizeAngle_id
      epsilon_less_1)

lemma plain_fields:
  "joint_model plain_constraint =
     Some \<lparr>jm_name = ''j'', jm_variable_count = 1, jm_revolute_continuous = Some True\<rparr>"
  "joint_is_continuous plain_constraint" "joint_position plain_constraint = Finite 1"
  "joint_tolerance_above plain_constraint = literal (1 / 10)"
  "joint_tolerance_below plain_constraint = Finite 1"
  "constraint_weight plain_constraint = Finite 1"
  by (simp_all add: plain_constraint_def JointConstraint_use_def joint_msg_def
      new_JointConstraint_def KinematicConstraint_def example_model_def
      KinematicConstraint.extend_def JointConstraint.fields_def Let_def btNormalizeAngle_id
      epsilon_less_1)

lemma wrap_sub: "Finite (- (6530219459687219 / 2 ^ 51)) - Finite 3 = Finite (- (3321404725185741 / 2 ^ 49))"
  using round_double_at [of 2 "- (6530219459687219 / 2 ^ 51) - 3"]
  by (simp add: double_ops pow2_def round_half_even_def Let_def)

lemma wrap_add:
  "Finite (- (3321404725185741 / 2 ^ 49)) + SIMD_2_PI = Finite (215714150828479 / 2 ^ 49)"
  using round_double_exact [of "215714150828479 / 2 ^ 49" 215714150828479 "- 49"]
  by (simp add: double_ops SIMD_2_PI_def pow2_def)

lemma wrap_dif:
  "JointConstraint_dif wrap_constraint (literal (- (29 / 10)))
     = Finite (- (215714150828479 / 2 ^ 49))"
proof -
  let ?cur = "literal (- (29 / 10))"
  let ?d = "Finite (- (3321404725185741 / 2 ^ 49))"
  have n: "btNormalizeAngle ?cur = ?cur"
    unfolding literal_29 by (rule btNormalizeAngle_id) simp_all
  have s: "?cur - Finite 3 = ?d"
    unfolding literal_29 by (rule wrap_sub)
  have c1: "\<not> ?d > SIMD_PI" and c2: "?d < - SIMD_PI"
    by (simp_all add: SIMD_PI_def double_ops)
  have c3: "?cur < Finite 3"
    by (simp add: literal_29 double_ops)
  have m: "- Finite (215714150828479 / 2 ^ 49) = Finite (- (215714150828479 / 2 ^ 49))"
    by (simp add: double_ops)
  show ?thesis
    unfolding JointConstraint_dif_def Let_def wrap_fields n s
    by (simp only: wrap_fields c1 c2 c3 wrap_add m if_True if_False)
qed

lemma plain_dif: "JointConstraint_dif plain_constraint (Finite (1 / 2)) = Finite (1 / 2)"
proof -
  let ?cur = "Finite (1 / 2)"
  let ?d = "Finite (- (1 / 2))"
  have n: "btNormalizeAngle ?cur = ?cur"
    by (rule btNormalizeAngle_id) simp_all
  have s: "?cur - Finite 1 = ?d"
    using round_double_exact [of "- (1 / 2)" "- 1" "- 1"]
    by (simp add: double_ops pow2_def)
  have c1: "\<not> ?d > SIMD_PI" and c2: "\<not> ?d < - SIMD_PI"
    by (simp_all add: SIMD_PI_def double_ops)
  have c3: "?cur < Finite 1"
    by (simp add: double_ops)
  have m: "- ?d = ?cur"
    by (simp add: double_ops)
  show ?thesis
    unfolding JointConstraint_dif_def Let_def plain_fields n s
    by (simp only: plain_fields c1 c2 c3 m if_True if_False)
qed

lemma wrap_decide:
  "JointConstraint_decide wrap_constraint (example_state (literal (- (29 / 10))) (Finite 0)) False
     = Inr ((False, Finite (215714150828479 / 2 ^ 49)), [])"
proof -
  let ?dif = "Finite (- (215714150828479 / 2 ^ 49))"
  have r: "\<not> (?dif \<le> Finite (1 / 2) \<and> ?dif \<ge> - literal (1 / 20))"
    by (simp add: literal_20 double_ops)
  have c: "Finite 1 * \<bar>?dif\<bar> = Finite (215714150828479 / 2 ^ 49)"
    using round_double_exact [of "215714150828479 / 2 ^ 49" 215714150828479 "- 49"]
    by (simp add: double_ops pow2_def)
  have st: "getJointState (example_state (literal (- (29 / 10))) (Finite 0)) ''j''
      = Some \<lparr>js_name = ''j'', getVariableValues = [literal (- (29 / 10))]\<rparr>"
    by (simp add: example_state_def)
  show ?thesis
    unfolding JointConstraint_decide_def Let_def wrap_fields
    by (simp only: st wrap_dif r c option.case list.case JointModel.simps JointState.simps
        if_False)
qed

lemma plain_decide:
  "JointConstraint_decide plain_constraint (example_state (Finite (1 / 2)) (Finite 0)) False
     = Inr ((False, Finite (1 / 2)), [])"
proof -
  let ?dif = "Finite (1 / 2)"
  have r: "\<not> (?dif \<le> literal (1 / 10) \<and> ?dif \<ge> - Finite 1)"
    by (simp add: literal_10 double_ops)
  have c: "Finite 1 * \<bar>?dif\<bar> = Finite (1 / 2)"
    using round_double_exact [of "1 / 2" 1 "- 1"]
    by (simp add: double_ops pow2_def)
  have st: "getJointState (example_state (Finite (1 / 2)) (Finite 0)) ''j''
      = Some \<lparr>js_name = ''j'', getVariableValues = [Finite (1 / 2)]\<rparr>"
    by (simp add: example_state_def)
  show ?thesis
    unfolding JointConstraint_decide_def Let_def plain_fields
    by (simp only: st plain_dif r c option.case list.case JointModel.simps JointState.simps
        if_False)
qed

subsection \<open>Joint constraints on the bounded joint\<close>

lemma near_fields:
  "joint_model near_constraint =
     Some \<lparr>jm_name = ''k'', jm_variable_count = 1, jm_revolute_continuous = Some False\<rparr>"
  "\<not> joint_is_continuous near_constraint" "joint_position near_constraint = Finite (1 / 4)"
  "joint_tolerance_above near_constraint = Finite (1 / 2)"
  "joint_tolerance_below near_constraint = Finite (1 / 2)"
  "constraint_weight near_constraint = Finite 1"
  by (simp_all add: near_constraint_def JointConstraint_use_def joint_msg_def
      new_JointConstraint_def KinematicConstraint_def example_model_def
      KinematicConstraint.extend_def JointConstraint.fields_def Let_def epsilon_less_1)

lemma far_fields:
  "joint_model far_constraint =
     Some \<lparr>jm_name = ''k'', jm_variable_count = 1, jm_revolute_continuous = Some False\<rparr>"
  "\<not> joint_is_continuous far_constraint" "joint_position far_constraint = Finite 2"
  "joint_tolerance_above far_constraint = Finite 1"
  "joint_tolerance_below far_constraint = Finite 1"
  "constraint_weight far_constraint = Finite 1"
  by (simp_all add: far_constraint_def JointConstraint_use_def joint_msg_def
      new_JointConstraint_def KinematicConstraint_def example_model_def
      KinematicConstraint.extend_def JointConstraint.fields_def Let_def epsilon_less_1)

lemma unit_fields:
  "joint_model unit_constraint =
     Some \<lparr>jm_name = ''k'', jm_variable_count = 1, jm_revolute_continuous = Some False\<rparr>"
  "\<not> joint_is_continuous unit_constraint" "joint_position unit_constraint = Finite 0"
  "joint_tolerance_above unit_constraint = Finite 2"
  "joint_tolerance_below unit_constraint = Finite 2"
  "constraint_weight unit_constraint = Finite 1"
  by (simp_all add: unit_constraint_def JointConstraint_use_def joint_msg_def
      new_JointConstraint_def KinematicConstraint_def example_model_def
      KinematicConstraint.extend_def JointConstraint.fields_def Let_def epsilon_less_1)

lemma tiny_fields:
  "joint_model tiny_constraint =
     Some \<lparr>jm_name = ''k'', jm_variable_count = 1, jm_revolute_continuous = Some False\<rparr>"
  "\<not> joint_is_continuous tiny_constraint"
  "joint_position tiny_constraint = Finite (1 - 1 / 2 ^ 53)"
  "joint_tolerance_above tiny_constraint = Finite 2"
  "joint_tolerance_below tiny_constraint = Finite 2"
  "constraint_weight tiny_constraint = Finite 1"
  by (simp_all add: tiny_constraint_def JointConstraint_use_def joint_msg_def
      new_JointConstraint_def KinematicConstraint_def example_model_def
      KinematicConstraint.extend_def JointConstraint.fields_def Let_def epsilon_less_1)

lemma round_double_dyadic:
  assumes "\<bar>m\<bar> < 2 ^ 53" and "k \<le> 1074"
  shows "round_double (of_int m / 2 ^ k) = Finite (of_int m / 2 ^ k)"
proof -
  have a: "\<bar>of_int m :: real\<bar> < 2 ^ 53"
  proof -
    have "\<bar>of_int m :: real\<bar> < of_int (2 ^ 53)"
      using assms(1) by (simp only: of_int_abs [symmetric] of_int_less_iff)
    then show ?thesis by simp
  qed
  have "\<bar>of_int m / 2 ^ k :: real\<bar> = \<bar>of_int m\<bar> / 2 ^ k"
    by (simp add: abs_divide)
  also have "\<dots> \<le> \<bar>of_int m\<bar> / 1"
    by (rule divide_left_mono) simp_all
  finally have "\<bar>of_int m / 2 ^ k :: real\<bar> < 2 ^ 53"
    using a by simp
  moreover have "(2::real) ^ 53 \<le> pow2 1024"
    by (simp add: pow2_def)
  ultimately have b: "\<bar>of_int m / 2 ^ k :: real\<bar> < pow2 1024"
    by (rule less_le_trans)
  have x: "of_int m / 2 ^ k = of_int m * pow2 (- int k)"
    by (simp add: pow2_def)
  show ?thesis
    by (rule round_double_exact [OF x assms(1) _ b]) (use assms(2) in simp)
qed

lemma half_sub_quarter: "Finite (1 / 2) - Finite (1 / 4) = Finite (1 / 4)"
  using round_double_dyadic [of 1 2] by (simp add: double_ops)

lemma near_decide:
  "JointConstraint_decide near_constraint (example_state (Finite 0) (Finite (1 / 2))) False
     = Inr ((True, Finite (1 / 4)), [])"
  using round_double_dyadic [of 1 2]
  by (simp add: JointConstraint_decide_def JointConstraint_dif_def near_fields
      example_state_def Let_def double_ops)


lemma far_decide:
  "JointConstraint_decide far_constraint (example_state (Finite 0) (Finite (1 / 2))) False
     = Inr ((False, Finite (3 / 2)), [])"
  using round_double_dyadic [of 3 1] round_double_dyadic [of "- 3" 1]
  by (simp add: JointConstraint_decide_def JointConstraint_dif_def far_fields
      example_state_def Let_def double_ops)

lemma unit_decide:
  "JointConstraint_decide unit_constraint (example_state (Finite 0) (Finite 1)) False
     = Inr ((True, Finite 1), [])"
  by (simp add: JointConstraint_decide_def JointConstraint_dif_def unit_fields
      example_state_def Let_def double_ops)

lemma tiny_sub: "Finite 1 - Finite (1 - 1 / 2 ^ 53) = Finite (1 / 2 ^ 53)"
proof -
  have "round_double (of_int 1 / 2 ^ 53) = Finite (of_int 1 / 2 ^ 53)"
    by (rule round_double_dyadic) simp_all
  then show ?thesis by (simp add: double_ops)
qed

lemma tiny_mul: "Finite 1 * \<bar>Finite (1 / 2 ^ 53)\<bar> = Finite (1 / 2 ^ 53)"
proof -
  have "round_double (of_int 1 / 2 ^ 53) = Finite (of_int 1 / 2 ^ 53)"
    by (rule round_double_dyadic) simp_all
  then show ?thesis by (simp add: double_ops)
qed

lemma tiny_decide:
  "JointConstraint_decide tiny_constraint (example_state (Finite 0) (Finite 1)) False
     = Inr ((True, Finite (1 / 2 ^ 53)), [])"
proof -
  have r: "Finite (1 / 2 ^ 53) \<le> Finite 2 \<and> Finite (1 / 2 ^ 53) \<ge> - Finite 2"
    by (simp add: double_ops)
  have st: "getJointState (example_state (Finite 0) (Finite 1)) ''k''
      = Some \<lparr>js_name = ''k'', getVariableValues = [Finite 1]\<rparr>"
    by (simp add: example_state_def)
  have d: "JointConstraint_dif tiny_constraint (Finite 1) = Finite (1 / 2 ^ 53)"
    unfolding JointConstraint_dif_def by (simp only: tiny_fields tiny_sub if_False)
  show ?thesis
    unfolding JointConstraint_decide_def Let_def tiny_fields
    by (simp only: st d r tiny_mul option.case list.case JointModel.simps JointState.simps
        if_False simp_thms)
qed


subsection \<open>KinematicConstraintSet::decide\<close>

lemma decide_loop_result:
  assumes "list_all2 (\<lambda>k r. \<exists>lg k'. Constraint_decide L k state verbose = Inr (r, lg, k')) ks rs"
  shows "\<exists>lg ks'. decide_loop L ks state verbose result d
           = Inr ((result \<and> list_all fst rs, foldl (+) d (map snd rs)), lg, ks')"
  using assms
proof (induction ks rs arbitrary: result d rule: list_all2_induct)
  case Nil
  then show ?case by simp
next
  case (Cons k ks r rs)
  from Cons.hyps(1) obtain lg k' where k: "Constraint_decide L k state verbose = Inr (r, lg, k')"
    by blast
  from Cons.IH [of "if \<not> fst r then False else result" "d + snd r"]
  obtain lgs ks' where
    "decide_loop L ks state verbose (if \<not> fst r then False else result) (d + snd r)
       = Inr (((if \<not> fst r then False else result) \<and> list_all fst rs,
               foldl (+) (d + snd r) (map snd rs)), lgs, ks')"
    by blast
  then show ?case
    using k by (auto simp: Let_def)
qed

lemma decisions_determined:
  assumes "list_all2 (\<lambda>k r. \<exists>lg k'. Constraint_decide L k state verbose = Inr (r, lg, k')) ks rs"
  shows "rs = map (\<lambda>k. fst (projr (Constraint_decide L k state verbose))) ks"
  using assms by (induction ks rs rule: list_all2_induct) auto

lemma each_decides:
  assumes "list_all2 (\<lambda>k r. \<exists>lg k'. Constraint_decide L k state verbose = Inr (r, lg, k')) ks rs"
    and "k \<in> set ks"
  shows "\<exists>r lg k'. Constraint_decide L k state verbose = Inr (r, lg, k')"
  using assms by (induction ks rs rule: list_all2_induct) auto

text \<open>
  C2, as the code has it. When every member of the set returns a decision for the state,
  \<open>decide\<close> returns the conjunction of the flags of the members (\<open>True\<close> for the empty
  set) and the costs of the members added one after the other in the order of the set,
  starting from 0.0, each addition rounded to a double; the cost of a member that is not
  satisfied is added like any other. A set that holds the same members in another order
  returns a decision with the same flag.
\<close>

theorem KinematicConstraintSet_decide_and_sum:
  fixes L :: "('sm, 'sh, 'body) Library" and s :: "('sm, 'body) KinematicConstraintSet"
  assumes "list_all2 (\<lambda>k r. \<exists>lg k'. Constraint_decide L k state verbose = Inr (r, lg, k'))
             (kce s) rs"
  shows "(\<exists>lg s'. KinematicConstraintSet_decide L s state verbose
            = Inr ((list_all fst rs, foldl (+) (Finite 0) (map snd rs)), lg, s'))
       \<and> (\<forall>t. mset (kce t) = mset (kce s) \<longrightarrow>
            (\<exists>cost lg t'. KinematicConstraintSet_decide L t state verbose
               = Inr ((list_all fst rs, cost), lg, t')))"
proof -
  let ?P = "\<lambda>k r. \<exists>lg k'. Constraint_decide L k state verbose = Inr (r, lg, k')"
  let ?f = "\<lambda>k. fst (projr (Constraint_decide L k state verbose))"
  have agg: "\<exists>lg u'. KinematicConstraintSet_decide L u state verbose
            = Inr ((list_all fst qs, foldl (+) (Finite 0) (map snd qs)), lg, u')"
    if "list_all2 ?P (kce u) qs" for u :: "('sm, 'body) KinematicConstraintSet" and qs
  proof -
    from decide_loop_result [OF that, of True "Finite 0"]
    obtain lg ks' where "decide_loop L (kce u) state verbose True (Finite 0)
           = Inr ((list_all fst qs, foldl (+) (Finite 0) (map snd qs)), lg, ks')"
      by auto
    then show ?thesis by (simp add: KinematicConstraintSet_decide_def)
  qed
  have rs: "rs = map ?f (kce s)"
    using assms by (rule decisions_determined)
  have each: "?P k (?f k)" if "k \<in> set (kce s)" for k
  proof -
    from each_decides [OF assms that] obtain r where "?P k r"
      by blast
    then show ?thesis by auto
  qed
  have perm: "\<exists>cost lg t'. KinematicConstraintSet_decide L t state verbose
               = Inr ((list_all fst rs, cost), lg, t')"
    if m: "mset (kce t) = mset (kce s)" for t :: "('sm, 'body) KinematicConstraintSet"
  proof -
    have set_eq: "set (kce t) = set (kce s)"
      using m by (rule mset_eq_setD)
    have "list_all2 ?P (kce t) (map ?f (kce t))"
      unfolding list_all2_map2 by (rule list_all2_same [THEN iffD2]) (use each set_eq in blast)
    from agg [OF this] obtain lg t' where d:
      "KinematicConstraintSet_decide L t state verbose
         = Inr ((list_all fst (map ?f (kce t)),
                 foldl (+) (Finite 0) (map snd (map ?f (kce t)))), lg, t')"
      by blast
    have a: "list_all fst (map ?f (kce t)) = list_all fst rs"
      using set_eq by (simp add: rs list_all_iff)
    show ?thesis using d a by auto
  qed
  show ?thesis using agg [OF assms] perm by blast
qed

theorem KinematicConstraintSet_decide_and_sum_witness:
  "list_all2 (\<lambda>k r. \<exists>lg k'. Constraint_decide example_library k
                               (example_state (Finite 0) (Finite (1 / 2))) False
                             = Inr (r, lg, k'))
     (kce (example_set [Joint near_constraint, Joint far_constraint]))
     [(True, Finite (1 / 4)), (False, Finite (3 / 2))]
   \<and> (\<exists>lg s'. KinematicConstraintSet_decide example_library
                 (example_set [Joint near_constraint, Joint far_constraint])
                 (example_state (Finite 0) (Finite (1 / 2))) False
               = Inr ((False, Finite (7 / 4)), lg, s'))
   \<and> (\<exists>cost lg s'. KinematicConstraintSet_decide example_library
                 (example_set [Joint far_constraint, Joint near_constraint])
                 (example_state (Finite 0) (Finite (1 / 2))) False
               = Inr ((False, cost), lg, s'))"
proof -
  let ?s = "example_set [Joint near_constraint, Joint far_constraint]
              :: (unit, btTransform) KinematicConstraintSet"
  let ?t = "example_set [Joint far_constraint, Joint near_constraint]
              :: (unit, btTransform) KinematicConstraintSet"
  have h: "list_all2 (\<lambda>k r. \<exists>lg k'. Constraint_decide example_library k
                               (example_state (Finite 0) (Finite (1 / 2))) False
                             = Inr (r, lg, k'))
     (kce ?s) [(True, Finite (1 / 4)), (False, Finite (3 / 2))]"
    by (simp add: example_set_def near_decide far_decide)
  have m: "mset (kce ?t) = mset (kce ?s)"
    by (simp add: example_set_def)
  have sum: "foldl (+) (Finite 0) (map snd [(True, Finite (1 / 4)), (False, Finite (3 / 2))])
      = Finite (7 / 4)"
    using round_double_dyadic [of 1 2] round_double_dyadic [of 7 2]
    by (simp add: double_ops)
  show ?thesis
    using KinematicConstraintSet_decide_and_sum [OF h] h m sum by simp
qed

lemma add_tiny: "Finite 1 + Finite (1 / 2 ^ 53) = Finite 1"
  using round_double_at [of 0 "1 + 1 / 2 ^ 53"]
  by (simp add: double_ops pow2_def round_half_even_def Let_def)

lemma add_tiny_tiny: "Finite (1 / 2 ^ 53) + Finite (1 / 2 ^ 53) = Finite (1 / 2 ^ 52)"
  using round_double_dyadic [of 1 52] by (simp add: double_ops)

lemma add_zero_left: "Finite 0 + Finite a = round_double a"
  by (simp add: double_ops)

lemma add_ulp: "Finite (1 / 2 ^ 52) + Finite 1 = Finite (1 + 1 / 2 ^ 52)"
  using round_double_dyadic [of "2 ^ 52 + 1" 52] by (simp add: double_ops)

lemma representable_below_one: "representable (1 - 1 / 2 ^ 53)"
proof -
  have "round_double (of_int (2 ^ 53 - 1) / 2 ^ 53) = Finite (of_int (2 ^ 53 - 1) / 2 ^ 53)"
    by (rule round_double_dyadic) simp_all
  then show ?thesis by (simp add: representable_def)
qed

text \<open>
  The cost does depend on the order of the members. Three satisfied joint constraints
  with the costs 1, \<open>1 / 2 ^ 53\<close> and \<open>1 / 2 ^ 53\<close>: added in this order the sum is 1, since
  \<open>1 + 1 / 2 ^ 53\<close> rounds to 1 (a tie, to the even mantissa); with the two small costs
  first the sum is \<open>1 + 1 / 2 ^ 52\<close>. The target \<open>1 - 1 / 2 ^ 53\<close> of the small
  constraints is a double.
\<close>

theorem decide_cost_depends_on_order_counterexample:
  "mset (kce (example_set [Joint unit_constraint, Joint tiny_constraint, Joint tiny_constraint]
                :: (unit, btTransform) KinematicConstraintSet))
     = mset (kce (example_set [Joint tiny_constraint, Joint tiny_constraint, Joint unit_constraint]
                :: (unit, btTransform) KinematicConstraintSet))
   \<and> KinematicConstraintSet_decide example_library
         (example_set [Joint unit_constraint, Joint tiny_constraint, Joint tiny_constraint])
         (example_state (Finite 0) (Finite 1)) False
       = Inr ((True, Finite 1), [],
              example_set [Joint unit_constraint, Joint tiny_constraint, Joint tiny_constraint])
   \<and> KinematicConstraintSet_decide example_library
         (example_set [Joint tiny_constraint, Joint tiny_constraint, Joint unit_constraint])
         (example_state (Finite 0) (Finite 1)) False
       = Inr ((True, Finite (1 + 1 / 2 ^ 52)), [],
              example_set [Joint tiny_constraint, Joint tiny_constraint, Joint unit_constraint])
   \<and> Finite 1 \<noteq> Finite (1 + 1 / 2 ^ 52)
   \<and> representable (1 - 1 / 2 ^ 53)"
proof -
  let ?st = "example_state (Finite 0) (Finite 1)"
  have u: "Constraint_decide example_library (Joint unit_constraint) ?st False
      = Inr ((True, Finite 1), [], Joint unit_constraint)"
    by (simp add: unit_decide)
  have t: "Constraint_decide example_library (Joint tiny_constraint) ?st False
      = Inr ((True, Finite (1 / 2 ^ 53)), [], Joint tiny_constraint)"
    by (simp only: Constraint_decide.simps tiny_decide sum.case prod.case)
  have a0: "Finite 0 + Finite 1 = Finite 1" "Finite 0 + Finite (1 / 2 ^ 53) = Finite (1 / 2 ^ 53)"
    using round_double_dyadic [of 1 53] by (simp_all add: double_ops)
  have l1: "decide_loop example_library
        [Joint unit_constraint, Joint tiny_constraint, Joint tiny_constraint] ?st False True (Finite 0)
      = Inr ((True, Finite 1), [],
             [Joint unit_constraint, Joint tiny_constraint, Joint tiny_constraint])"
    by (simp only: decide_loop.simps u t a0 add_tiny Let_def sum.case prod.case fst_conv snd_conv
        simp_thms if_False append_Nil)
  have l2: "decide_loop example_library
        [Joint tiny_constraint, Joint tiny_constraint, Joint unit_constraint] ?st False True (Finite 0)
      = Inr ((True, Finite (1 + 1 / 2 ^ 52)), [],
             [Joint tiny_constraint, Joint tiny_constraint, Joint unit_constraint])"
    by (simp only: decide_loop.simps u t a0 add_tiny_tiny add_ulp Let_def sum.case prod.case
        fst_conv snd_conv simp_thms if_False append_Nil)
  have k: "kce (example_set ks :: (unit, btTransform) KinematicConstraintSet) = ks" for ks
    by (simp add: example_set_def)
  have e: "(example_set ks :: (unit, btTransform) KinematicConstraintSet)\<lparr>kce := ks\<rparr>
      = example_set ks" for ks
    by (simp add: example_set_def)
  have d1: "KinematicConstraintSet_decide example_library
         (example_set [Joint unit_constraint, Joint tiny_constraint, Joint tiny_constraint])
         ?st False
       = Inr ((True, Finite 1), [],
              example_set [Joint unit_constraint, Joint tiny_constraint, Joint tiny_constraint])"
    unfolding KinematicConstraintSet_decide_def k l1 by (simp only: sum.case prod.case e)
  have d2: "KinematicConstraintSet_decide example_library
         (example_set [Joint tiny_constraint, Joint tiny_constraint, Joint unit_constraint])
         ?st False
       = Inr ((True, Finite (1 + 1 / 2 ^ 52)), [],
              example_set [Joint tiny_constraint, Joint tiny_constraint, Joint unit_constraint])"
    unfolding KinematicConstraintSet_decide_def k l2 by (simp only: sum.case prod.case e)
  have m: "mset (kce (example_set [Joint unit_constraint, Joint tiny_constraint, Joint tiny_constraint]
                :: (unit, btTransform) KinematicConstraintSet))
     = mset (kce (example_set [Joint tiny_constraint, Joint tiny_constraint, Joint unit_constraint]
                :: (unit, btTransform) KinematicConstraintSet))"
    unfolding k by simp
  have n: "Finite 1 \<noteq> Finite (1 + 1 / 2 ^ 52)"
    by simp
  show ?thesis
    using m d1 d2 n representable_below_one by (intro conjI)
qed

subsection \<open>OrientationConstraint::decide and the states without the joint or link\<close>

lemma epsilon_pos: "Finite 0 < epsilon"
  by (simp add: epsilon_def double_ops)

lemma not_le_epsilon_iff: "w \<noteq> NaN \<Longrightarrow> (\<not> w \<le> epsilon) = (epsilon < w)"
  by (cases w) (auto simp: epsilon_def double_ops)

lemma unit_ball_fields:
  "position_link_model unit_ball_constraint = Some \<lparr>lm_name = ''l''\<rparr>"
  "constraint_region unit_ball_constraint = Some getIdentity"
  "\<not> position_mobile_frame unit_ball_constraint"
  "constraint_weight unit_ball_constraint = Finite 1"
  by (simp_all add: unit_ball_constraint_def PositionConstraint_use_def position_msg_def
      new_PositionConstraint_def KinematicConstraint_def example_model_def example_library_def
      example_tf_def KinematicConstraint.extend_def PositionConstraint.fields_def Let_def
      origin_pose_def getIdentity_def btVector3_def epsilon_less_1)

lemma abs_zero: "\<bar>Finite 0\<bar> = Finite 0"
  by (simp add: double_ops)

lemma zero_tolerance_fields:
  "orientation_link_model zero_tolerance_constraint = Some \<lparr>lm_name = ''l''\<rparr>"
  "absolute_roll_tolerance zero_tolerance_constraint = Finite 0"
  "absolute_pitch_tolerance zero_tolerance_constraint = Finite 0"
  "absolute_yaw_tolerance zero_tolerance_constraint = Finite 0"
  "constraint_weight zero_tolerance_constraint = Finite 1"
  by (simp_all add: zero_tolerance_constraint_def OrientationConstraint_use_def orientation_msg_def
      new_OrientationConstraint_def KinematicConstraint_def example_model_def example_library_def
      example_tf_def KinematicConstraint.extend_def OrientationConstraint.fields_def Let_def
      epsilon_less_1 abs_zero)

lemma OrientationConstraint_use_tolerances:
  "absolute_roll_tolerance (fst (snd (OrientationConstraint_use L c m)))
     = \<bar>oc_absolute_roll_tolerance m\<bar>"
  "absolute_pitch_tolerance (fst (snd (OrientationConstraint_use L c m)))
     = \<bar>oc_absolute_pitch_tolerance m\<bar>"
  "absolute_yaw_tolerance (fst (snd (OrientationConstraint_use L c m)))
     = \<bar>oc_absolute_yaw_tolerance m\<bar>"
  by (simp_all add: OrientationConstraint_use_def Let_def split_def)

lemma abs_not_less_zero: "\<not> \<bar>a\<bar> < Finite 0"
  by (cases a) (simp_all add: double_ops)

text \<open>
  C4. For an orientation constraint with a link that the state has, \<open>decide\<close> is satisfied
  exactly when the absolute values of roll, pitch and yaw of the error are all strictly
  below their tolerances, and the cost is the weight times the sum of the three absolute
  values (in double arithmetic). With three tolerances 0 the constraint is not satisfied,
  whatever the error is. \<open>use\<close> stores the absolute values of the tolerances of the
  specification.
\<close>

theorem OrientationConstraint_decide_strict:
  assumes "orientation_link_model c = Some lm"
    and "getLinkState state (lm_name lm) = Some link_state"
    and "OrientationConstraint_error L c state link_state = (yaw, pitch, roll)"
  shows "(\<exists>lg. OrientationConstraint_decide L c state verbose
            = Inr ((\<bar>roll\<bar> < absolute_roll_tolerance c \<and> \<bar>pitch\<bar> < absolute_pitch_tolerance c
                    \<and> \<bar>yaw\<bar> < absolute_yaw_tolerance c,
                    constraint_weight c * (\<bar>roll\<bar> + \<bar>pitch\<bar> + \<bar>yaw\<bar>)), lg))
         \<and> (absolute_roll_tolerance c = Finite 0 \<and> absolute_pitch_tolerance c = Finite 0
              \<and> absolute_yaw_tolerance c = Finite 0
            \<longrightarrow> (\<exists>lg. OrientationConstraint_decide L c state verbose
                   = Inr ((False, constraint_weight c * (\<bar>roll\<bar> + \<bar>pitch\<bar> + \<bar>yaw\<bar>)), lg)))
         \<and> absolute_roll_tolerance (fst (snd (OrientationConstraint_use L c0 m)))
             = \<bar>oc_absolute_roll_tolerance m\<bar>
         \<and> absolute_pitch_tolerance (fst (snd (OrientationConstraint_use L c0 m)))
             = \<bar>oc_absolute_pitch_tolerance m\<bar>
         \<and> absolute_yaw_tolerance (fst (snd (OrientationConstraint_use L c0 m)))
             = \<bar>oc_absolute_yaw_tolerance m\<bar>"
  using assms
  by (simp add: OrientationConstraint_decide_def Let_def OrientationConstraint_use_tolerances
      abs_not_less_zero)

theorem OrientationConstraint_decide_strict_witness:
  "orientation_link_model zero_tolerance_constraint = Some \<lparr>lm_name = ''l''\<rparr>
   \<and> getLinkState (example_state (Finite 0) (Finite 0)) (lm_name \<lparr>lm_name = ''l''\<rparr>)
       = Some \<lparr>getGlobalLinkTransform = getIdentity\<rparr>
   \<and> OrientationConstraint_error example_library zero_tolerance_constraint
        (example_state (Finite 0) (Finite 0)) \<lparr>getGlobalLinkTransform = getIdentity\<rparr>
       = (Finite 0, Finite 0, Finite 0)
   \<and> absolute_roll_tolerance zero_tolerance_constraint = Finite 0
   \<and> absolute_pitch_tolerance zero_tolerance_constraint = Finite 0
   \<and> absolute_yaw_tolerance zero_tolerance_constraint = Finite 0
   \<and> (\<exists>lg. OrientationConstraint_decide example_library zero_tolerance_constraint
               (example_state (Finite 0) (Finite 0)) False = Inr ((False, Finite 0), lg))"
proof -
  have a: "orientation_link_model zero_tolerance_constraint = Some \<lparr>lm_name = ''l''\<rparr>"
    by (rule zero_tolerance_fields)
  have b: "getLinkState (example_state (Finite 0) (Finite 0)) (lm_name \<lparr>lm_name = ''l''\<rparr>)
       = Some \<lparr>getGlobalLinkTransform = getIdentity\<rparr>"
    by (simp add: example_state_def)
  have c: "OrientationConstraint_error example_library zero_tolerance_constraint
        (example_state (Finite 0) (Finite 0)) \<lparr>getGlobalLinkTransform = getIdentity\<rparr>
       = (Finite 0, Finite 0, Finite 0)"
    by (simp add: OrientationConstraint_error_def example_library_def Let_def)
  have z: "Finite 1 * (\<bar>Finite 0\<bar> + \<bar>Finite 0\<bar> + \<bar>Finite 0\<bar>) = Finite 0"
    by (simp add: double_ops)
  show ?thesis
    using OrientationConstraint_decide_strict [OF a b c, of False] a b c z
    by (simp add: zero_tolerance_fields)
qed

text \<open>
  C8. An enabled joint, position or orientation constraint whose joint or link is not in
  the state decides \<open>(False, 0)\<close> with one warning that names the joint or link; the
  result is a value (\<open>Inr\<close>), not an error.
\<close>

theorem decide_without_joint_or_link:
  "(joint_model jc = Some jm \<and> getJointState state (jm_name jm) = None
      \<longrightarrow> JointConstraint_decide jc state verbose
            = Inr ((False, Finite 0), [(ROS_WARN, NoJointInState (jm_name jm))]))
   \<and> (position_link_model pc = Some lm \<and> constraint_region pc = Some region
       \<and> getLinkState state (lm_name lm) = None
      \<longrightarrow> PositionConstraint_decide L pc state verbose
            = Inr ((False, Finite 0), [(ROS_WARN, NoLinkInState (lm_name lm))]))
   \<and> (orientation_link_model oc = Some lm' \<and> getLinkState state (lm_name lm') = None
      \<longrightarrow> OrientationConstraint_decide L oc state verbose
            = Inr ((False, Finite 0), [(ROS_WARN, NoLinkInState (lm_name lm'))]))"
  by (simp add: JointConstraint_decide_def PositionConstraint_decide_def
      OrientationConstraint_decide_def)

theorem decide_without_joint_or_link_witness:
  "joint_model wrap_constraint
     = Some \<lparr>jm_name = ''j'', jm_variable_count = 1, jm_revolute_continuous = Some True\<rparr>
   \<and> getJointState empty_state ''j'' = None
   \<and> JointConstraint_decide wrap_constraint empty_state False
       = Inr ((False, Finite 0), [(ROS_WARN, NoJointInState ''j'')])
   \<and> position_link_model unit_ball_constraint = Some \<lparr>lm_name = ''l''\<rparr>
   \<and> constraint_region unit_ball_constraint = Some getIdentity
   \<and> getLinkState empty_state ''l'' = None
   \<and> PositionConstraint_decide example_library unit_ball_constraint empty_state False
       = Inr ((False, Finite 0), [(ROS_WARN, NoLinkInState ''l'')])
   \<and> orientation_link_model zero_tolerance_constraint = Some \<lparr>lm_name = ''l''\<rparr>
   \<and> OrientationConstraint_decide example_library zero_tolerance_constraint empty_state False
       = Inr ((False, Finite 0), [(ROS_WARN, NoLinkInState ''l'')])"
  using decide_without_joint_or_link
    [of wrap_constraint "\<lparr>jm_name = ''j'', jm_variable_count = 1, jm_revolute_continuous = Some True\<rparr>"
        empty_state False unit_ball_constraint "\<lparr>lm_name = ''l''\<rparr>" getIdentity example_library
        zero_tolerance_constraint "\<lparr>lm_name = ''l''\<rparr>"]
  by (simp add: wrap_fields unit_ball_fields zero_tolerance_fields empty_state_def)

subsection \<open>The weight\<close>

lemma JointConstraint_use_weight:
  "constraint_weight (fst (snd (JointConstraint_use c m)))
     = (if getJointModel (model c) (jc_joint_name m) \<noteq> None \<and> \<not> jc_weight m \<le> epsilon
        then jc_weight m else constraint_weight c)"
  by (simp add: JointConstraint_use_def Let_def split_def split: option.split)

lemma JointConstraint_use_weight_warning:
  "(ROS_WARN, JointWeightShouldBePositive (jc_joint_name m))
       \<in> set (snd (snd (JointConstraint_use c m)))
     \<longleftrightarrow> getJointModel (model c) (jc_joint_name m) \<noteq> None \<and> jc_weight m \<le> epsilon"
  by (simp add: JointConstraint_use_def Let_def split_def split: option.split)

lemma PositionConstraint_use_weight:
  "constraint_weight (fst (snd (PositionConstraint_use L c m)))
     = (if fst (PositionConstraint_use L c m) \<and> \<not> pc_weight m \<le> epsilon
        then pc_weight m else constraint_weight c)"
  by (simp add: PositionConstraint_use_def Let_def split_def split: option.split)

lemma PositionConstraint_use_weight_warning:
  "(ROS_WARN, PositionWeightShouldBePositive (pc_link_name m))
       \<in> set (snd (snd (PositionConstraint_use L c m)))
     \<longleftrightarrow> fst (PositionConstraint_use L c m) \<and> pc_weight m \<le> epsilon"
  by (simp add: PositionConstraint_use_def Let_def split_def split: option.split)

lemma OrientationConstraint_use_weight:
  "constraint_weight (fst (snd (OrientationConstraint_use L c m)))
     = (if \<not> oc_weight m \<le> epsilon then oc_weight m else constraint_weight c)"
  by (simp add: OrientationConstraint_use_def Let_def split_def)

lemma OrientationConstraint_use_weight_warning:
  "(ROS_WARN, OrientationWeightShouldBePositive (oc_link_name m))
       \<in> set (snd (snd (OrientationConstraint_use L c m)))
     \<longleftrightarrow> oc_weight m \<le> epsilon"
  by (simp add: OrientationConstraint_use_def Let_def split_def)

lemma VisibilityConstraint_use_weight:
  "constraint_weight (fst (snd (VisibilityConstraint_use L c m)))
     = (if \<not> vc_weight m \<le> epsilon then vc_weight m else constraint_weight c)"
  by (simp add: VisibilityConstraint_use_def Let_def split_def)

lemma VisibilityConstraint_use_weight_warning:
  "(ROS_WARN, VisibilityWeightShouldBePositive)
       \<in> set (snd (snd (VisibilityConstraint_use L c m)))
     \<longleftrightarrow> vc_weight m \<le> epsilon"
  by (simp add: VisibilityConstraint_use_def Let_def split_def)

text \<open>
  C5, as the code has it. A new constraint has the weight \<open>epsilon\<close>, which is
  \<open>1 / 2 ^ 52\<close>. For a weight of the specification that is a number (not NaN), \<open>use\<close>
  stores it exactly when it is above \<open>epsilon\<close> and \<open>use\<close> reaches the test of the weight:
  always for an orientation and a visibility constraint, for a joint constraint when the
  model has the joint, for a position constraint when the link and the region are found.
  Otherwise the weight stays as it was. The warning is logged exactly when the test is
  reached and the weight is at most \<open>epsilon\<close>.
\<close>

theorem use_stores_weight_above_epsilon:
  "constraint_weight (KinematicConstraint km t) = epsilon
   \<and> (jc_weight mj \<noteq> NaN \<longrightarrow>
        constraint_weight (fst (snd (JointConstraint_use jc mj)))
          = (if getJointModel (model jc) (jc_joint_name mj) \<noteq> None \<and> epsilon < jc_weight mj
             then jc_weight mj else constraint_weight jc)
        \<and> ((ROS_WARN, JointWeightShouldBePositive (jc_joint_name mj))
              \<in> set (snd (snd (JointConstraint_use jc mj)))
            \<longleftrightarrow> getJointModel (model jc) (jc_joint_name mj) \<noteq> None \<and> jc_weight mj \<le> epsilon))
   \<and> (pc_weight mp \<noteq> NaN \<longrightarrow>
        constraint_weight (fst (snd (PositionConstraint_use L pc mp)))
          = (if fst (PositionConstraint_use L pc mp) \<and> epsilon < pc_weight mp
             then pc_weight mp else constraint_weight pc)
        \<and> ((ROS_WARN, PositionWeightShouldBePositive (pc_link_name mp))
              \<in> set (snd (snd (PositionConstraint_use L pc mp)))
            \<longleftrightarrow> fst (PositionConstraint_use L pc mp) \<and> pc_weight mp \<le> epsilon))
   \<and> (oc_weight mo \<noteq> NaN \<longrightarrow>
        constraint_weight (fst (snd (OrientationConstraint_use L oc mo)))
          = (if epsilon < oc_weight mo then oc_weight mo else constraint_weight oc)
        \<and> ((ROS_WARN, OrientationWeightShouldBePositive (oc_link_name mo))
              \<in> set (snd (snd (OrientationConstraint_use L oc mo)))
            \<longleftrightarrow> oc_weight mo \<le> epsilon))
   \<and> (vc_weight mv \<noteq> NaN \<longrightarrow>
        constraint_weight (fst (snd (VisibilityConstraint_use L vc mv)))
          = (if epsilon < vc_weight mv then vc_weight mv else constraint_weight vc)
        \<and> ((ROS_WARN, VisibilityWeightShouldBePositive)
              \<in> set (snd (snd (VisibilityConstraint_use L vc mv)))
            \<longleftrightarrow> vc_weight mv \<le> epsilon))"
proof -
  have b: "constraint_weight (KinematicConstraint km t) = epsilon"
    by (simp add: KinematicConstraint_def)
  have j: "constraint_weight (fst (snd (JointConstraint_use jc mj)))
          = (if getJointModel (model jc) (jc_joint_name mj) \<noteq> None \<and> epsilon < jc_weight mj
             then jc_weight mj else constraint_weight jc)" if "jc_weight mj \<noteq> NaN"
    by (simp only: JointConstraint_use_weight not_le_epsilon_iff [OF that])
  have p: "constraint_weight (fst (snd (PositionConstraint_use L pc mp)))
          = (if fst (PositionConstraint_use L pc mp) \<and> epsilon < pc_weight mp
             then pc_weight mp else constraint_weight pc)" if "pc_weight mp \<noteq> NaN"
    by (simp only: PositionConstraint_use_weight not_le_epsilon_iff [OF that])
  have o: "constraint_weight (fst (snd (OrientationConstraint_use L oc mo)))
          = (if epsilon < oc_weight mo then oc_weight mo else constraint_weight oc)"
    if "oc_weight mo \<noteq> NaN"
    by (simp only: OrientationConstraint_use_weight not_le_epsilon_iff [OF that])
  have v: "constraint_weight (fst (snd (VisibilityConstraint_use L vc mv)))
          = (if epsilon < vc_weight mv then vc_weight mv else constraint_weight vc)"
    if "vc_weight mv \<noteq> NaN"
    by (simp only: VisibilityConstraint_use_weight not_le_epsilon_iff [OF that])
  show ?thesis
    using b j p o v JointConstraint_use_weight_warning [of mj jc]
      PositionConstraint_use_weight_warning [of mp L pc]
      OrientationConstraint_use_weight_warning [of mo L oc]
      VisibilityConstraint_use_weight_warning [of L vc mv]
    by blast
qed

lemma epsilon_less_5: "epsilon < Finite 5" "\<not> Finite 5 \<le> epsilon"
  by (simp_all add: epsilon_def double_ops)

lemma half_epsilon: "Finite (1 / 2 ^ 53) \<le> epsilon" "\<not> epsilon < Finite (1 / 2 ^ 53)"
  "Finite 0 < Finite (1 / 2 ^ 53)"
  by (simp_all add: epsilon_def double_ops)

lemma zero_epsilon: "Finite 0 \<le> epsilon" "\<not> epsilon < Finite 0"
  by (simp_all add: epsilon_def double_ops)

theorem use_stores_weight_above_epsilon_witness:
  "jc_weight (joint_msg ''j'' (Finite 0) (Finite 0) (Finite 0) (Finite 5)) \<noteq> NaN
   \<and> constraint_weight (fst (snd (JointConstraint_use new_JointConstraint
         (joint_msg ''j'' (Finite 0) (Finite 0) (Finite 0) (Finite 5))))) = Finite 5
   \<and> pc_weight (position_msg ''l'' (Finite 0)) \<noteq> NaN
   \<and> constraint_weight (fst (snd (PositionConstraint_use example_library new_PositionConstraint
         (position_msg ''l'' (Finite 0))))) = epsilon
   \<and> (ROS_WARN, PositionWeightShouldBePositive ''l'')
       \<in> set (snd (snd (PositionConstraint_use example_library new_PositionConstraint
                 (position_msg ''l'' (Finite 0)))))
   \<and> oc_weight (orientation_msg ''l'' (Finite 1) (Finite 5)) \<noteq> NaN
   \<and> constraint_weight (fst (snd (OrientationConstraint_use example_library
         new_OrientationConstraint (orientation_msg ''l'' (Finite 1) (Finite 5))))) = Finite 5
   \<and> vc_weight (visibility_msg (Finite 1) 3 (Finite 0) (Finite 1) (Finite 5)) \<noteq> NaN
   \<and> constraint_weight (fst (snd (VisibilityConstraint_use example_library
         new_VisibilityConstraint (visibility_msg (Finite 1) 3 (Finite 0) (Finite 1) (Finite 5)))))
       = Finite 5"
proof -
  have w: "jc_weight (joint_msg ''j'' (Finite 0) (Finite 0) (Finite 0) (Finite 5)) = Finite 5"
    "pc_weight (position_msg ''l'' (Finite 0)) = Finite 0"
    "pc_link_name (position_msg ''l'' (Finite 0)) = ''l''"
    "oc_weight (orientation_msg ''l'' (Finite 1) (Finite 5)) = Finite 5"
    "vc_weight (visibility_msg (Finite 1) 3 (Finite 0) (Finite 1) (Finite 5)) = Finite 5"
    "jc_joint_name (joint_msg ''j'' (Finite 0) (Finite 0) (Finite 0) (Finite 5)) = ''j''"
    by (simp_all add: joint_msg_def position_msg_def orientation_msg_def visibility_msg_def)
  have g: "getJointModel (model new_JointConstraint) ''j'' \<noteq> None"
    "constraint_weight new_PositionConstraint = epsilon"
    by (simp_all add: new_JointConstraint_def new_PositionConstraint_def KinematicConstraint_def
        KinematicConstraint.extend_def example_model_def)
  have r: "fst (PositionConstraint_use example_library new_PositionConstraint
         (position_msg ''l'' (Finite 0)))"
    by (simp add: PositionConstraint_use_def position_msg_def new_PositionConstraint_def
        KinematicConstraint_def KinematicConstraint.extend_def example_model_def
        example_library_def Let_def split_def)
  show ?thesis
    using use_stores_weight_above_epsilon
      [where mj = "joint_msg ''j'' (Finite 0) (Finite 0) (Finite 0) (Finite 5)"
         and jc = new_JointConstraint
         and mp = "position_msg ''l'' (Finite 0)" and pc = new_PositionConstraint
         and mo = "orientation_msg ''l'' (Finite 1) (Finite 5)" and oc = new_OrientationConstraint
         and mv = "visibility_msg (Finite 1) 3 (Finite 0) (Finite 1) (Finite 5)"
         and vc = new_VisibilityConstraint and L = example_library]
      g r
    by (simp add: w epsilon_less_5 zero_epsilon)
qed

lemma representable_half_epsilon: "representable (1 / 2 ^ 53)"
  using round_double_dyadic [of 1 53] by (simp add: representable_def)

text \<open>
  The claim as stated fails: a weight of \<open>1 / 2 ^ 53\<close> is a positive double and is not
  stored, and the weight 5 of a joint constraint on a joint that the model does not have
  is not stored either.
\<close>

theorem positive_weight_not_stored_counterexample:
  "Finite 0 < Finite (1 / 2 ^ 53) \<and> representable (1 / 2 ^ 53)
   \<and> constraint_weight new_OrientationConstraint = epsilon
   \<and> constraint_weight (fst (snd (OrientationConstraint_use example_library
         new_OrientationConstraint (orientation_msg ''l'' (Finite 1) (Finite (1 / 2 ^ 53))))))
       = Finite (1 / 2 ^ 52)
   \<and> constraint_weight (fst (snd (OrientationConstraint_use example_library
         new_OrientationConstraint (orientation_msg ''l'' (Finite 1) (Finite (1 / 2 ^ 53))))))
       \<noteq> Finite (1 / 2 ^ 53)
   \<and> Finite 0 < Finite 5
   \<and> constraint_weight (fst (snd (JointConstraint_use new_JointConstraint
         (joint_msg ''x'' (Finite 0) (Finite 0) (Finite 0) (Finite 5))))) \<noteq> Finite 5"
proof -
  have o: "constraint_weight (fst (snd (OrientationConstraint_use example_library
         new_OrientationConstraint (orientation_msg ''l'' (Finite 1) (Finite (1 / 2 ^ 53))))))
       = Finite (1 / 2 ^ 52)"
    using half_epsilon
    by (simp add: OrientationConstraint_use_weight orientation_msg_def
        new_OrientationConstraint_def KinematicConstraint_def KinematicConstraint.extend_def,
        simp add: epsilon_def)
  have j: "constraint_weight (fst (snd (JointConstraint_use new_JointConstraint
         (joint_msg ''x'' (Finite 0) (Finite 0) (Finite 0) (Finite 5))))) = epsilon"
    by (simp add: JointConstraint_use_weight joint_msg_def new_JointConstraint_def
        KinematicConstraint_def KinematicConstraint.extend_def example_model_def)
  have n: "constraint_weight new_OrientationConstraint = epsilon"
    by (simp add: new_OrientationConstraint_def KinematicConstraint_def
        KinematicConstraint.extend_def)
  have z: "Finite 0 < Finite (5::real)" "epsilon \<noteq> Finite 5"
    "Finite (1 / 2 ^ 52) \<noteq> Finite (1 / 2 ^ 53 :: real)"
    by (simp_all add: double_ops epsilon_def)
  show ?thesis
    using o j n z half_epsilon(3) representable_half_epsilon by simp
qed

subsection \<open>The view angle\<close>



lemma abs_NaN: "\<bar>NaN\<bar> = NaN"
  by (simp add: double_ops)

lemma back_view_fields:
  "target_radius (back_view_constraint r a) = \<bar>r\<bar>"
  "max_view_angle (back_view_constraint r a) = a"
  "\<not> mobile_target_frame (back_view_constraint r a)"
  "\<not> mobile_sensor_frame (back_view_constraint r a)"
  "target_pose (back_view_constraint r a)
     = \<lparr>getBasis = identity_matrix, getOrigin = btVector3 (Finite 0) (Finite 0) (Finite 0)\<rparr>"
  "sensor_pose (back_view_constraint r a)
     = \<lparr>getBasis = identity_matrix, getOrigin = btVector3 (Finite 0) (Finite 0) (Finite 1)\<rparr>"
  by (simp_all add: back_view_constraint_def VisibilityConstraint_use_def visibility_msg_def
      origin_pose_def example_library_def example_tf_def new_VisibilityConstraint_def
      KinematicConstraint_def KinematicConstraint.extend_def VisibilityConstraint.fields_def
      Let_def split_def)


lemma back_view_angle: "view_angle example_library (back_view_constraint r a) state = SIMD_PI"
  by (simp add: view_angle_def back_view_fields Let_def normalized_def scale_vec_def
      vec_length_def minus_vec_def length2_def dot_def getColumn_def identity_matrix_def
      btVector3_def c_acos_def example_library_def double_ops)


lemma clear_disables:
  "\<not> JointConstraint_enabled (JointConstraint_clear jc)"
  "\<not> PositionConstraint_enabled (PositionConstraint_clear pc)"
  "\<not> OrientationConstraint_enabled (OrientationConstraint_clear oc)"
  "\<not> VisibilityConstraint_enabled (VisibilityConstraint_clear vc)"
  "VisibilityConstraint_decide L (VisibilityConstraint_clear vc) state verbose
     = Inr ((True, Finite 0), [], VisibilityConstraint_clear vc)"
  by (simp_all add: JointConstraint_enabled_def JointConstraint_clear_def
      PositionConstraint_enabled_def PositionConstraint_clear_def
      OrientationConstraint_enabled_def OrientationConstraint_clear_def
      VisibilityConstraint_enabled_def VisibilityConstraint_clear_def
      VisibilityConstraint_decide_def epsilon_def double_ops)

lemma NaN_weight_stored:
  "constraint_weight (fst (snd (OrientationConstraint_use L c (m\<lparr>oc_weight := NaN\<rparr>)))) = NaN"
  "(ROS_WARN, OrientationWeightShouldBePositive (oc_link_name m))
     \<notin> set (snd (snd (OrientationConstraint_use L c (m\<lparr>oc_weight := NaN\<rparr>))))"
  using OrientationConstraint_use_weight_warning [of "m\<lparr>oc_weight := NaN\<rparr>" L c]
  by (simp_all add: OrientationConstraint_use_weight)

subsection \<open>Enabled and disabled constraints\<close>

lemma JointConstraint_use_enabled:
  "fst (JointConstraint_use c m) = JointConstraint_enabled (fst (snd (JointConstraint_use c m)))"
  by (simp add: JointConstraint_use_def JointConstraint_enabled_def Let_def split_def
      split: option.split)

lemma PositionConstraint_use_enabled:
  "fst (PositionConstraint_use L c m) = PositionConstraint_enabled (fst (snd (PositionConstraint_use L c m)))"
  by (simp add: PositionConstraint_use_def PositionConstraint_enabled_def Let_def split_def
      split: option.split)

lemma OrientationConstraint_use_enabled:
  "fst (OrientationConstraint_use L c m)
     = OrientationConstraint_enabled (fst (snd (OrientationConstraint_use L c m)))"
  by (simp add: OrientationConstraint_use_def OrientationConstraint_enabled_def Let_def split_def)

lemma VisibilityConstraint_use_enabled:
  "fst (VisibilityConstraint_use L c m)
     = VisibilityConstraint_enabled (fst (snd (VisibilityConstraint_use L c m)))"
  by (simp add: VisibilityConstraint_use_def VisibilityConstraint_enabled_def Let_def split_def)

lemma VisibilityConstraint_use_target_radius:
  "target_radius (fst (snd (VisibilityConstraint_use L c m))) = \<bar>vc_target_radius m\<bar>"
  by (simp add: VisibilityConstraint_use_def Let_def split_def)

lemma VisibilityConstraint_use_warns:
  "(ROS_WARN, RadiusShouldBePositive) \<in> set (snd (snd (VisibilityConstraint_use L c m)))
     \<longleftrightarrow> vc_target_radius m \<le> epsilon"
  by (simp add: VisibilityConstraint_use_def Let_def split_def)

lemma disabled_decides_true:
  "\<not> JointConstraint_enabled jc
     \<Longrightarrow> JointConstraint_decide jc state verbose = Inr ((True, Finite 0), [])"
  "\<not> PositionConstraint_enabled pc
     \<Longrightarrow> PositionConstraint_decide L pc state verbose = Inr ((True, Finite 0), [])"
  "\<not> OrientationConstraint_enabled oc
     \<Longrightarrow> OrientationConstraint_decide L oc state verbose = Inr ((True, Finite 0), [])"
  "target_radius vc \<le> epsilon
     \<Longrightarrow> VisibilityConstraint_decide L vc state verbose = Inr ((True, Finite 0), [], vc)"
  by (auto simp: JointConstraint_enabled_def JointConstraint_decide_def
      PositionConstraint_enabled_def PositionConstraint_decide_def
      OrientationConstraint_enabled_def OrientationConstraint_decide_def
      VisibilityConstraint_decide_def split: option.split)

lemma use_radius_not_NaN:
  assumes "vc_target_radius m \<noteq> NaN"
  shows "VisibilityConstraint_enabled (fst (snd (VisibilityConstraint_use L c m)))
           \<longleftrightarrow> \<not> target_radius (fst (snd (VisibilityConstraint_use L c m))) \<le> epsilon"
proof -
  have "\<bar>vc_target_radius m\<bar> \<noteq> NaN"
    using assms by (cases "vc_target_radius m") (simp_all add: double_ops)
  then show ?thesis
    by (simp add: VisibilityConstraint_enabled_def VisibilityConstraint_use_target_radius
        not_le_epsilon_iff)
qed

lemma negative_radius_enabled:
  assumes "vc_target_radius m < - epsilon"
  shows "VisibilityConstraint_enabled (fst (snd (VisibilityConstraint_use L c m)))"
  using assms
  by (cases "vc_target_radius m")
    (simp_all add: VisibilityConstraint_enabled_def VisibilityConstraint_use_target_radius
      epsilon_def double_ops)

lemma one_less_pi: "Finite 1 < SIMD_PI" "Finite 0 < Finite 1" "Finite 2 < SIMD_PI"
  "Finite 0 < Finite 2"
  by (simp_all add: SIMD_PI_def double_ops)

text \<open>
  C7. A visibility constraint that is disabled after a failed \<open>use\<close> and does not decide
  \<open>(True, 0)\<close>: the radius of the specification is NaN, \<open>use\<close> returns \<open>False\<close>, the
  constraint is not enabled, and \<open>decide\<close> returns \<open>(False, 0)\<close>, because the view angle
  \<open>SIMD_PI\<close> is above the maximum 1. The disabled constraints of the three other kinds, the
  visibility constraints with a radius of at most \<open>epsilon\<close> and every cleared constraint
  decide \<open>(True, 0)\<close> (\<open>disabled_decides_true\<close>, \<open>clear_disables\<close>).
\<close>

theorem VisibilityConstraint_disabled_decides_false:
  "\<not> fst (VisibilityConstraint_use example_library new_VisibilityConstraint
             (visibility_msg NaN 3 (Finite 1) (Finite 1) (Finite 1)))
   \<and> \<not> VisibilityConstraint_enabled (back_view_constraint NaN (Finite 1))
   \<and> VisibilityConstraint_decide example_library (back_view_constraint NaN (Finite 1))
         (example_state (Finite 0) (Finite 0)) False
       = Inr ((False, Finite 0), [], back_view_constraint NaN (Finite 1))"
proof -
  let ?c = "back_view_constraint NaN (Finite 1)"
  have r: "target_radius ?c = NaN"
    by (simp add: back_view_fields abs_NaN)
  have e: "\<not> VisibilityConstraint_enabled ?c"
    by (simp add: VisibilityConstraint_enabled_def r)
  have u: "\<not> fst (VisibilityConstraint_use example_library new_VisibilityConstraint
             (visibility_msg NaN 3 (Finite 1) (Finite 1) (Finite 1)))"
    using e by (simp add: VisibilityConstraint_use_enabled back_view_constraint_def)
  have d: "VisibilityConstraint_decide example_library ?c (example_state (Finite 0) (Finite 0)) False
       = Inr ((False, Finite 0), [], ?c)"
    by (simp add: VisibilityConstraint_decide_def r back_view_angle back_view_fields(2)
        one_less_pi Let_def)
  show ?thesis using u e d by simp
qed

text \<open>
  C6. \<open>use\<close> with the radius NaN: the stored radius is NaN, which does not exceed
  \<open>epsilon\<close>; no warning about the radius is logged; \<open>use\<close> returns \<open>False\<close> and the
  constraint is not enabled. Yet \<open>decide\<close> does not pass at once: its first test is
  \<^verbatim>\<open>target_radius_ <= epsilon\<close>, which is false of NaN as well, so \<open>decide\<close> goes on to the
  view angle (the maximum here is 2, the angle \<open>SIMD_PI\<close>) and returns \<open>(False, 0)\<close>.
  For every radius that is a number the two tests agree (\<open>use_radius_not_NaN\<close>), \<open>use\<close>
  stores the absolute value (\<open>VisibilityConstraint_use_target_radius\<close>) and a radius
  below \<open>- epsilon\<close> gives an enabled constraint (\<open>negative_radius_enabled\<close>).
\<close>

theorem VisibilityConstraint_use_NaN_radius:
  "target_radius (back_view_constraint NaN (Finite 2)) = NaN
   \<and> \<not> epsilon < target_radius (back_view_constraint NaN (Finite 2))
   \<and> \<not> target_radius (back_view_constraint NaN (Finite 2)) \<le> epsilon
   \<and> \<not> fst (VisibilityConstraint_use example_library new_VisibilityConstraint
               (visibility_msg NaN 3 (Finite 2) (Finite 1) (Finite 1)))
   \<and> (ROS_WARN, RadiusShouldBePositive)
       \<notin> set (snd (snd (VisibilityConstraint_use example_library new_VisibilityConstraint
                          (visibility_msg NaN 3 (Finite 2) (Finite 1) (Finite 1)))))
   \<and> \<not> VisibilityConstraint_enabled (back_view_constraint NaN (Finite 2))
   \<and> VisibilityConstraint_decide example_library (back_view_constraint NaN (Finite 2))
         (example_state (Finite 0) (Finite 0)) False
       = Inr ((False, Finite 0), [], back_view_constraint NaN (Finite 2))
   \<and> VisibilityConstraint_decide example_library (back_view_constraint NaN (Finite 2))
         (example_state (Finite 0) (Finite 0)) False
       \<noteq> Inr ((True, Finite 0), [], back_view_constraint NaN (Finite 2))"
proof -
  let ?c = "back_view_constraint NaN (Finite 2)"
  have r: "target_radius ?c = NaN"
    by (simp add: back_view_fields abs_NaN)
  have e: "\<not> VisibilityConstraint_enabled ?c"
    by (simp add: VisibilityConstraint_enabled_def r)
  have u: "\<not> fst (VisibilityConstraint_use example_library new_VisibilityConstraint
             (visibility_msg NaN 3 (Finite 2) (Finite 1) (Finite 1)))"
    using e by (simp add: VisibilityConstraint_use_enabled back_view_constraint_def)
  have w: "(ROS_WARN, RadiusShouldBePositive)
       \<notin> set (snd (snd (VisibilityConstraint_use example_library new_VisibilityConstraint
                          (visibility_msg NaN 3 (Finite 2) (Finite 1) (Finite 1)))))"
    by (simp add: VisibilityConstraint_use_warns visibility_msg_def)
  have d: "VisibilityConstraint_decide example_library ?c (example_state (Finite 0) (Finite 0)) False
       = Inr ((False, Finite 0), [], ?c)"
    by (simp add: VisibilityConstraint_decide_def r back_view_angle back_view_fields(2)
        one_less_pi Let_def)
  show ?thesis using r u w e d by simp
qed

subsection \<open>The visibility cone\<close>

lemma store_ok: "i < length a \<Longrightarrow> store a i v = Inr (a[i := v])"
  by (simp add: store_def)















subsection \<open>mergeConstraints and the sign of the joint difference\<close>

lemma name_in_first_iff: "name_in_first n fs \<longleftrightarrow> n \<in> jc_joint_name ` set fs"
  by (induction fs) auto

lemma merge_joint_constraints_eq:
  "merge_joint_constraints ss fs r =
     r @ filter (\<lambda>s. jc_joint_name s \<notin> jc_joint_name ` set fs) ss"
  by (induction ss arbitrary: r) (simp_all add: name_in_first_iff)

lemma push_back_all_eq: "push_back_all ss r = r @ ss"
  by (induction ss arbitrary: r) simp_all

lemma joint_constraints_mergeConstraints:
  "joint_constraints (mergeConstraints a b) =
     joint_constraints a @
     filter (\<lambda>s. jc_joint_name s \<notin> jc_joint_name ` set (joint_constraints a))
       (joint_constraints b)"
  by (simp add: mergeConstraints_def merge_joint_constraints_eq)

text \<open>
  C3. \<open>mergeConstraints a b\<close> is \<open>a\<close> with, appended in the order of \<open>b\<close>: the joint
  constraints of \<open>b\<close> whose joint name is the name of no joint constraint of \<open>a\<close>, and all
  the position, orientation and visibility constraints of \<open>b\<close>. Every other field is the
  one of \<open>a\<close>.
\<close>

theorem mergeConstraints_appends:
  "mergeConstraints a b =
     a\<lparr>joint_constraints :=
         joint_constraints a @
         filter (\<lambda>s. jc_joint_name s \<notin> jc_joint_name ` set (joint_constraints a))
           (joint_constraints b),
       position_constraints := position_constraints a @ position_constraints b,
       orientation_constraints := orientation_constraints a @ orientation_constraints b,
       visibility_constraints := visibility_constraints a @ visibility_constraints b\<rparr>"
  by (simp add: mergeConstraints_def merge_joint_constraints_eq push_back_all_eq)

text \<open>
  C10. A joint constraint of the second argument is compared with the joint constraints of
  the first argument only. For a joint name \<open>n\<close> that the first argument does not use, the
  merged list holds exactly the entries named \<open>n\<close> of the second argument, each as often
  as it occurs there; when there are two or more, the merged list repeats a joint name.
\<close>

theorem mergeConstraints_keeps_duplicates_of_second:
  assumes "n \<notin> jc_joint_name ` set (joint_constraints a)"
  shows "filter (\<lambda>s. jc_joint_name s = n) (joint_constraints (mergeConstraints a b)) =
           filter (\<lambda>s. jc_joint_name s = n) (joint_constraints b)
         \<and> (2 \<le> length (filter (\<lambda>s. jc_joint_name s = n) (joint_constraints b)) \<longrightarrow>
              \<not> distinct (map jc_joint_name (joint_constraints (mergeConstraints a b))))"
proof -
  let ?r = "joint_constraints (mergeConstraints a b)"
  let ?named = "filter (\<lambda>s. jc_joint_name s = n)"
  have none_in_a: "?named (joint_constraints a) = []"
    using assms by (auto simp: filter_empty_conv)
  have eq: "?named ?r = ?named (joint_constraints b)"
    unfolding joint_constraints_mergeConstraints
    using assms none_in_a by (auto intro: filter_cong)
  have dup: "\<not> distinct (map jc_joint_name ?r)" if two: "2 \<le> length (?named (joint_constraints b))"
  proof
    assume d: "distinct (map jc_joint_name ?r)"
    have "length (?named ?r) = length (filter (\<lambda>x. x = n) (map jc_joint_name ?r))"
      by (simp add: filter_map comp_def)
    also have "\<dots> = card ({x. x = n} \<inter> set (map jc_joint_name ?r))"
      using d by (rule distinct_length_filter)
    also have "\<dots> \<le> card {n}"
      by (rule card_mono) auto
    finally show False
      using two eq by simp
  qed
  show ?thesis
    using eq dup by blast
qed

theorem mergeConstraints_keeps_duplicates_of_second_witness:
  "''b'' \<notin> jc_joint_name ` set (joint_constraints merge_first)
   \<and> filter (\<lambda>s. jc_joint_name s = ''b'') (joint_constraints (mergeConstraints merge_first merge_second))
       = [joint_msg ''b'' (Finite 1) (Finite 0) (Finite 0) (Finite 1),
          joint_msg ''b'' (Finite 2) (Finite 0) (Finite 0) (Finite 1)]
   \<and> map jc_joint_name (joint_constraints (mergeConstraints merge_first merge_second))
       = [''a'', ''b'', ''b'']
   \<and> \<not> distinct (map jc_joint_name (joint_constraints (mergeConstraints merge_first merge_second)))"
proof -
  have h: "''b'' \<notin> jc_joint_name ` set (joint_constraints merge_first)"
    by (simp add: merge_first_def joint_msg_def)
  have two: "2 \<le> length (filter (\<lambda>s. jc_joint_name s = ''b'') (joint_constraints merge_second))"
    by (simp add: merge_second_def joint_msg_def)
  have names: "map jc_joint_name (joint_constraints (mergeConstraints merge_first merge_second))
       = [''a'', ''b'', ''b'']"
    by (simp add: joint_constraints_mergeConstraints merge_first_def merge_second_def joint_msg_def)
  have b: "filter (\<lambda>s. jc_joint_name s = ''b'') (joint_constraints merge_second)
       = [joint_msg ''b'' (Finite 1) (Finite 0) (Finite 0) (Finite 1),
          joint_msg ''b'' (Finite 2) (Finite 0) (Finite 0) (Finite 1)]"
    by (simp add: merge_second_def joint_msg_def)
  show ?thesis
    using mergeConstraints_keeps_duplicates_of_second [OF h, of merge_second] h two names b
    by simp
qed

lemma wrap_dif_negative: "Finite (- (215714150828479 / 2 ^ 49)) < Finite 0"
  by (simp add: double_ops)

lemma wrap_magnitude_within:
  "Finite (215714150828479 / 2 ^ 49) \<le> Finite (1 / 2)"
  by (simp add: double_ops)

text \<open>
  C1. The code at two inputs on a continuous joint, in double arithmetic. With target
  3.0 and current value -2.9 (0.383 above the target across the wrap boundary), \<^verbatim>\<open>dif\<close>
  is \<open>- 215714150828479 / 2 ^ 49\<close>, about -0.383: the magnitude is the wrapped one and the
  sign is negative, so the value is tested against the tolerance below and the constraint
  (0.5 above, 0.05 below) is reported violated, although the magnitude is within the
  tolerance above. With target 1.0 and current value 0.5 (below the target, no wrap),
  \<^verbatim>\<open>dif\<close> is +0.5, tested against the tolerance above, and the constraint (0.1 above,
  1.0 below) is reported violated.
\<close>

theorem JointConstraint_decide_sign:
  "JointConstraint_enabled wrap_constraint \<and> joint_is_continuous wrap_constraint
   \<and> joint_position wrap_constraint = Finite 3
   \<and> joint_tolerance_above wrap_constraint = Finite (1 / 2)
   \<and> joint_tolerance_below wrap_constraint = literal (1 / 20)
   \<and> JointConstraint_dif wrap_constraint (literal (- (29 / 10)))
       = Finite (- (215714150828479 / 2 ^ 49))
   \<and> JointConstraint_dif wrap_constraint (literal (- (29 / 10))) < Finite 0
   \<and> - JointConstraint_dif wrap_constraint (literal (- (29 / 10)))
       \<le> joint_tolerance_above wrap_constraint
   \<and> JointConstraint_decide wrap_constraint
         (example_state (literal (- (29 / 10))) (Finite 0)) False
       = Inr ((False, Finite (215714150828479 / 2 ^ 49)), [])
   \<and> JointConstraint_enabled plain_constraint \<and> joint_is_continuous plain_constraint
   \<and> joint_position plain_constraint = Finite 1
   \<and> joint_tolerance_above plain_constraint = literal (1 / 10)
   \<and> joint_tolerance_below plain_constraint = Finite 1
   \<and> JointConstraint_dif plain_constraint (Finite (1 / 2)) = Finite (1 / 2)
   \<and> JointConstraint_decide plain_constraint (example_state (Finite (1 / 2)) (Finite 0)) False
       = Inr ((False, Finite (1 / 2)), [])"
proof -
  have e: "JointConstraint_enabled wrap_constraint" "JointConstraint_enabled plain_constraint"
    by (simp_all add: JointConstraint_enabled_def wrap_fields plain_fields)
  have n: "JointConstraint_dif wrap_constraint (literal (- (29 / 10))) < Finite 0"
    by (simp only: wrap_dif wrap_dif_negative)
  have m: "- JointConstraint_dif wrap_constraint (literal (- (29 / 10)))
       \<le> joint_tolerance_above wrap_constraint"
    unfolding wrap_dif wrap_fields by (simp add: double_ops)
  show ?thesis
    using e n m wrap_fields plain_fields wrap_dif plain_dif wrap_decide plain_decide
    by (simp only: simp_thms)
qed

end
